theory Spec2Isabelle
  imports Complex_Main
begin

section \<open>EMG Bitalino analyzer: a shallow embedding of \<open>app_emg.py\<close>\<close>

text \<open>
  The development follows \<open>src/app_emg.py\<close>: the helper functions
  \<open>bandpass_filter\<close>, \<open>notch_filter\<close>, \<open>convert_to_mv\<close>, the main function
  \<open>process_emg_file\<close> and the part of the Streamlit script that consumes its result
  (the fatigue analysis). Conventions of the model:
  \<^item> A float is the real number it denotes. The arithmetic whose rounding decides a
    discrete outcome is IEEE double arithmetic (round to nearest, ties to even, on values
    in the normal range): the two divisions of line 111, which give the number of
    baseline windows, and the subtraction, division and multiplication of lines 215-216,
    whose result is compared with a threshold. The signal arithmetic (calibration,
    means, square roots, spectral sums) is exact. Infinities are outside the model; a
    numpy value that can be \<open>nan\<close> (the mean of an empty slice, a quotient by zero) has
    type \<open>npfloat\<close>.
  \<^item> Exceptions are values of \<open>py_error\<close>; a function that can raise returns
    \<open>py_error + 'a\<close>.
  \<^item> \<open>st.warning\<close> and \<open>st.error\<close> calls are a list of diagnostics, returned next to the
    result, so that the diagnostics emitted before an exception are kept.
  \<^item> The third-party functions (\<open>json.loads\<close>, \<open>pandas.read_csv\<close>, scipy's
    \<open>butter\<close>, \<open>filtfilt\<close>, \<open>welch\<close>, \<open>linregress\<close>) are not part of the repository:
    they are the fields of a record \<open>libs\<close> that every function using them takes as
    its first argument. What a theorem needs of them is a stated hypothesis.
\<close>

subsection \<open>Exceptions and diagnostics\<close>

datatype value_error =
    RangeStepZero                 \<comment> \<open>\<open>range() arg 3 must not be zero\<close>\<close>
  | UnpackArity nat nat           \<comment> \<open>\<open>not enough values to unpack (expected m, got n)\<close>\<close>
  | LengthMismatch nat nat        \<comment> \<open>pandas: \<open>Length mismatch\<close> on \<open>df.columns = [...]\<close>\<close>
  | CriticalFrequencies           \<comment> \<open>scipy: \<open>Digital filter critical frequencies must be 0 < Wn < 1\<close>\<close>
  | InputShorterThanPadlen nat    \<comment> \<open>scipy: \<open>The length of the input vector x must be greater than padlen\<close>\<close>

datatype py_error =
    ValueError value_error
  | TypeError
  | ZeroDivisionError
  | IndexError
  | LibraryError string           \<comment> \<open>any other exception of a library call\<close>

datatype diagnostic =
    Warn_resolution_not_found     \<comment> \<open>line 58\<close>
  | Err_A1_not_found              \<comment> \<open>line 60\<close>
  | Warn_header_not_found         \<comment> \<open>line 63\<close>
  | Err_json_decode               \<comment> \<open>line 66\<close>
  | Err_header_exception          \<comment> \<open>line 68\<close>
  | Warn_baseline_insufficient    \<comment> \<open>line 114\<close>

subsection \<open>Values read from the header\<close>

text \<open>JSON values as \<open>json.loads\<close> returns them. Numbers are integers, as the fields of
  an OpenSignals header are; an object is its key/value pairs in insertion order.\<close>

datatype json =
    JNull
  | JBool bool
  | JInt int
  | JStr string
  | JList "json list"
  | JObj "(string \<times> json) list"

text \<open>A Python value used as an integer operand: \<open>int\<close>, or \<open>bool\<close> (a subclass of
  \<open>int\<close>); every other type raises \<open>TypeError\<close> in \<open>//\<close> and \<open>**\<close>.\<close>

fun as_int :: "json \<Rightarrow> int option" where
  "as_int (JInt n) = Some n"
| "as_int (JBool b) = Some (if b then 1 else 0)"
| "as_int _ = None"

subsection \<open>Calibration: \<open>convert_to_mv\<close>\<close>

text \<open>\<open>convert_to_mv(raw, n_bits, vcc=3.3, gain=1000)\<close>, lines 25-28, on a column of
  raw counts. \<open>2**n_bits\<close> is \<open>2 powi n\<close>: a Python float for a negative exponent.\<close>

definition convert_to_mv :: "real list \<Rightarrow> json \<Rightarrow> real \<Rightarrow> real \<Rightarrow> py_error + real list" where
  "convert_to_mv raw n_bits vcc gain =
     (case as_int n_bits of
        None \<Rightarrow> Inl TypeError
      | Some n \<Rightarrow> Inr (map (\<lambda>r. ((r / (2 powi n)) - 0.5) * vcc * 1000 / gain) raw))"

definition convert_to_mv_default :: "real list \<Rightarrow> json \<Rightarrow> py_error + real list" where
  "convert_to_mv_default raw n_bits = convert_to_mv raw n_bits 3.3 1000"

text \<open>The calibration formula in the words of the specification (section 4.2).\<close>

definition calibration_spec :: "real \<Rightarrow> nat \<Rightarrow> real \<Rightarrow> real \<Rightarrow> real" where
  "calibration_spec raw_count resolution_bits vcc gain =
     ((raw_count / 2 ^ resolution_bits) - 0.5) * vcc * 1000 / gain"

subsection \<open>Python built-ins used by the code\<close>

text \<open>\<open>str.splitlines()\<close>: the line boundaries among the code points below 256 are
  \<open>\n\<close>, \<open>\r\<close>, \<open>\r\n\<close>, \<open>\v\<close>, \<open>\f\<close>, \<open>\x1c\<close>, \<open>\x1d\<close>, \<open>\x1e\<close> and \<open>\x85\<close>; a
  boundary at the very end does not open a further, empty line.\<close>

definition is_linebreak :: "char \<Rightarrow> bool" where
  "is_linebreak c = (of_char c \<in> {10, 11, 12, 13, 28, 29, 30, 133 :: nat})"

fun splitlines_acc :: "string \<Rightarrow> string \<Rightarrow> string list" where
  "splitlines_acc cur [] = (if cur = [] then [] else [rev cur])"
| "splitlines_acc cur (c # cs) =
     (if is_linebreak c then
        rev cur # splitlines_acc []
          (if of_char c = (13 :: nat) \<and> cs \<noteq> [] \<and> of_char (hd cs) = (10 :: nat) then tl cs else cs)
      else splitlines_acc (c # cur) cs)"

definition splitlines :: "string \<Rightarrow> string list" where
  "splitlines s = splitlines_acc [] s"

text \<open>\<open>str.strip()\<close> removes the leading and trailing characters for which
  \<open>str.isspace\<close> holds (below 256: 9 to 13, 28 to 32, \<open>\x85\<close>, \<open>\xa0\<close>).\<close>

definition is_space :: "char \<Rightarrow> bool" where
  "is_space c = (of_char c \<in> {9, 10, 11, 12, 13, 28, 29, 30, 31, 32, 133, 160 :: nat})"

definition strip :: "string \<Rightarrow> string" where
  "strip s = rev (dropWhile is_space (rev (dropWhile is_space s)))"

definition startswith :: "string \<Rightarrow> string \<Rightarrow> bool" where
  "startswith s p = (take (length p) s = p)"

text \<open>A slice \<open>xs[a:b]\<close> (also \<open>.iloc[a:b]\<close>): a negative bound counts from the end, and
  both bounds are clamped to the list.\<close>

definition slice_bound :: "nat \<Rightarrow> int \<Rightarrow> nat" where
  "slice_bound n a = (if a < 0 then nat (int n + a) else min n (nat a))"

definition py_slice :: "'a list \<Rightarrow> int \<Rightarrow> int \<Rightarrow> 'a list" where
  "py_slice xs a b =
     (let lo = slice_bound (length xs) a; hi = slice_bound (length xs) b
      in take (hi - lo) (drop lo xs))"

text \<open>\<open>.iloc[j]\<close> and \<open>xs[j]\<close> at an integer: a negative index counts from the end, an
  index outside the list raises \<open>IndexError\<close>.\<close>

definition py_index :: "'a list \<Rightarrow> int \<Rightarrow> py_error + 'a" where
  "py_index xs j =
     (let n = int (length xs); k = (if j < 0 then j + n else j)
      in if 0 \<le> k \<and> k < n then Inr (xs ! nat k) else Inl IndexError)"

text \<open>\<open>range(start, stop, step)\<close>: a zero step raises \<open>ValueError\<close>.\<close>

function range_up :: "int \<Rightarrow> int \<Rightarrow> int \<Rightarrow> int list" where
  "range_up i stop step =
     (if 0 < step \<and> i < stop then i # range_up (i + step) stop step else [])"
  by pat_completeness auto
termination
  by (relation "measure (\<lambda>(i, stop, step). nat (stop - i))") auto

declare range_up.simps [simp del]

function range_down :: "int \<Rightarrow> int \<Rightarrow> int \<Rightarrow> int list" where
  "range_down i stop step =
     (if step < 0 \<and> stop < i then i # range_down (i + step) stop step else [])"
  by pat_completeness auto
termination
  by (relation "measure (\<lambda>(i, stop, step). nat (i - stop))") auto

declare range_down.simps [simp del]

definition py_range :: "int \<Rightarrow> int \<Rightarrow> int \<Rightarrow> py_error + int list" where
  "py_range start stop step =
     (if step = 0 then Inl (ValueError RangeStepZero)
      else if 0 < step then Inr (range_up start stop step)
      else Inr (range_down start stop step))"

text \<open>\<open>int(x)\<close> of a float truncates towards zero.\<close>

definition py_int :: "real \<Rightarrow> int" where
  "py_int x = (if 0 \<le> x then \<lfloor>x\<rfloor> else \<lceil>x\<rceil>)"

subsection \<open>IEEE double arithmetic\<close>

text \<open>Rounding a real to the nearest integer, a tie to the even one.\<close>

definition round_half_even :: "real \<Rightarrow> int" where
  "round_half_even x =
     (let n = \<lfloor>x\<rfloor>; r = x - of_int n
      in if r < 1 / 2 then n
         else if 1 / 2 < r then n + 1
         else if even n then n else n + 1)"

text \<open>Rounding a real to the nearest double: 53 significant bits, so that a value in
  \<open>[2^e, 2^(e+1))\<close> is a multiple of \<open>2^(e-52)\<close>.\<close>

definition fl :: "real \<Rightarrow> real" where
  "fl x =
     (if x = 0 then 0
      else
        let e = \<lfloor>log 2 \<bar>x\<bar>\<rfloor>; ulp = 2 powi (e - 52)
        in of_int (round_half_even (x / ulp)) * ulp)"

text \<open>The operations on doubles: the exact result, rounded. A division is applied to
  a divisor that is not zero.\<close>

definition double_sub :: "real \<Rightarrow> real \<Rightarrow> real" where
  "double_sub x y = fl (x - y)"

definition double_mul :: "real \<Rightarrow> real \<Rightarrow> real" where
  "double_mul x y = fl (x * y)"

definition double_div :: "real \<Rightarrow> real \<Rightarrow> real" where
  "double_div x y = fl (x / y)"

subsection \<open>numpy values\<close>

text \<open>\<open>np.mean\<close>: the mean of an empty array is \<open>nan\<close> (with a warning, no exception).\<close>

datatype npfloat = Fin real | NaN

definition mean :: "real list \<Rightarrow> real" where
  "mean xs = sum_list xs / real (length xs)"

definition np_mean :: "real list \<Rightarrow> npfloat" where
  "np_mean xs = (if xs = [] then NaN else Fin (mean xs))"

text \<open>A quotient of two numpy floats: by zero it is \<open>nan\<close> or an infinity (with a
  warning, no exception), here \<open>NaN\<close>.\<close>

definition np_divide :: "real \<Rightarrow> real \<Rightarrow> npfloat" where
  "np_divide x y = (if y = 0 then NaN else Fin (x / y))"

text \<open>The number that a numpy value is, when it is one.\<close>

fun fin_value :: "npfloat \<Rightarrow> real" where
  "fin_value (Fin x) = x"

subsection \<open>The libraries\<close>

datatype btype = Bandpass | Bandstop

text \<open>
  \<^item> \<open>json_loads s\<close>: \<open>None\<close> is \<open>json.JSONDecodeError\<close>.
  \<^item> \<open>read_csv text usecols\<close>: \<open>pd.read_csv(io.StringIO(text), sep='\s+', comment="#",
    header=None, usecols=usecols)\<close>, the columns of the frame it returns.
  \<^item> \<open>butter order low high btype\<close>: \<open>butter(order, [low, high], btype=...)\<close>, the
    coefficient arrays \<open>(b, a)\<close>.
  \<^item> \<open>filtfilt b a x\<close>, \<open>welch x fs nperseg\<close> (the arrays \<open>(f, Pxx)\<close>),
    \<open>linregress x y\<close> (slope and p-value, the two results the code keeps).
\<close>

record libs =
  json_loads :: "string \<Rightarrow> json option"
  read_csv :: "string \<Rightarrow> int list \<Rightarrow> py_error + real list list"
  butter :: "nat \<Rightarrow> real \<Rightarrow> real \<Rightarrow> btype \<Rightarrow> py_error + (real list \<times> real list)"
  filtfilt :: "real list \<Rightarrow> real list \<Rightarrow> real list \<Rightarrow> py_error + real list"
  welch :: "real list \<Rightarrow> int \<Rightarrow> int \<Rightarrow> real list \<times> real list"
  linregress :: "real list \<Rightarrow> real list \<Rightarrow> real \<times> real"

subsection \<open>Filters: \<open>bandpass_filter\<close> and \<open>notch_filter\<close>\<close>

text \<open>Lines 11-23. \<open>fs / 2\<close> is a float; a float division by zero raises
  \<open>ZeroDivisionError\<close>. Neither function catches what \<open>butter\<close> or \<open>filtfilt\<close> raise.\<close>

definition bandpass_filter ::
  "libs \<Rightarrow> real list \<Rightarrow> real \<Rightarrow> real \<Rightarrow> int \<Rightarrow> nat \<Rightarrow> py_error + real list" where
  "bandpass_filter L signal lowcut highcut fs order =
     (let nyq = real_of_int fs / 2 in
      if nyq = 0 then Inl ZeroDivisionError
      else
        let low = lowcut / nyq; high = highcut / nyq in
        case butter L order low high Bandpass of
          Inl e \<Rightarrow> Inl e
        | Inr (b, a) \<Rightarrow> filtfilt L b a signal)"

definition notch_filter ::
  "libs \<Rightarrow> real list \<Rightarrow> real \<Rightarrow> int \<Rightarrow> nat \<Rightarrow> py_error + real list" where
  "notch_filter L signal notch_freq fs order =
     (let nyq = real_of_int fs / 2 in
      if nyq = 0 then Inl ZeroDivisionError
      else
        let low = (notch_freq - 1) / nyq; high = (notch_freq + 1) / nyq in
        case butter L order low high Bandstop of
          Inl e \<Rightarrow> Inl e
        | Inr (b, a) \<Rightarrow> filtfilt L b a signal)"

subsection \<open>Header extraction (lines 36-68 of \<open>process_emg_file\<close>)\<close>

record header =
  h_fs :: json
  h_resolution_bits :: json
  h_emg_column_index :: int

definition default_header :: header where
  "default_header = \<lparr>h_fs = JInt 1000, h_resolution_bits = JInt 10, h_emg_column_index = 5\<rparr>"

text \<open>\<open>d.get(key, default)\<close> on a dict.\<close>

definition dict_get :: "(string \<times> json) list \<Rightarrow> string \<Rightarrow> json \<Rightarrow> json" where
  "dict_get kvs k d = (case map_of kvs k of None \<Rightarrow> d | Some v \<Rightarrow> v)"

text \<open>\<open>info = header_json[list(header_json.keys())[0]]\<close>: \<open>None\<close> when this raises
  (no \<open>keys\<close> on a non-dict, no first key in an empty dict).\<close>

fun first_value :: "json \<Rightarrow> json option" where
  "first_value (JObj ((k, v) # kvs)) = Some v"
| "first_value _ = None"

fun find_sub :: "string \<Rightarrow> string \<Rightarrow> nat option" where
  "find_sub p [] = (if p = [] then Some 0 else None)"
| "find_sub p (c # cs) =
     (if startswith (c # cs) p then Some 0 else map_option Suc (find_sub p cs))"

fun first_index :: "'a \<Rightarrow> 'a list \<Rightarrow> nat option" where
  "first_index a [] = None"
| "first_index a (x # xs) = (if x = a then Some 0 else map_option Suc (first_index a xs))"

text \<open>\<open>"A1" in columns\<close>: membership in a list, substring of a string, key of a dict;
  \<open>None\<close> is the \<open>TypeError\<close> of a value that is not iterable.\<close>

fun contains_A1 :: "json \<Rightarrow> bool option" where
  "contains_A1 (JList xs) = Some (JStr ''A1'' \<in> set xs)"
| "contains_A1 (JStr s) = Some (find_sub ''A1'' s \<noteq> None)"
| "contains_A1 (JObj kvs) = Some (map_of kvs ''A1'' \<noteq> None)"
| "contains_A1 _ = None"

text \<open>\<open>columns.index("A1")\<close>, reached only when \<open>"A1" in columns\<close>; \<open>None\<close> is the
  exception (a dict has no \<open>index\<close>).\<close>

fun index_A1 :: "json \<Rightarrow> nat option" where
  "index_A1 (JList xs) = first_index (JStr ''A1'') xs"
| "index_A1 (JStr s) = find_sub ''A1'' s"
| "index_A1 _ = None"

text \<open>\<open>len(x)\<close>; \<open>None\<close> is the \<open>TypeError\<close> of a value without a length.\<close>

fun py_len :: "json \<Rightarrow> nat option" where
  "py_len (JList xs) = Some (length xs)"
| "py_len (JStr s) = Some (length s)"
| "py_len (JObj kvs) = Some (length kvs)"
| "py_len _ = None"

text \<open>\<open>x[i]\<close> for \<open>i < len(x)\<close>; \<open>None\<close> is the \<open>KeyError\<close> of a dict (its keys are
  strings).\<close>

fun py_getitem :: "json \<Rightarrow> nat \<Rightarrow> json option" where
  "py_getitem (JList xs) i = Some (xs ! i)"
| "py_getitem (JStr s) i = Some (JStr [s ! i])"
| "py_getitem _ i = None"

text \<open>Lines 49-61, with \<open>info\<close> a dict. An exception inside the \<open>try\<close> is caught at line
  67 and keeps the assignments made before it. The result \<open>None\<close> is the \<open>return\<close> of
  line 61.\<close>

definition read_info :: "(string \<times> json) list \<Rightarrow> diagnostic list \<times> header option" where
  "read_info info =
     (let h1 = default_header\<lparr>h_fs := dict_get info ''sampling rate'' (h_fs default_header)\<rparr>;
          columns = dict_get info ''column'' (JList [])
      in case contains_A1 columns of
           None \<Rightarrow> ([Err_header_exception], Some h1)
         | Some False \<Rightarrow> ([Err_A1_not_found], None)
         | Some True \<Rightarrow>
            (case index_A1 columns of
               None \<Rightarrow> ([Err_header_exception], Some h1)
             | Some i \<Rightarrow>
                (let h2 = h1\<lparr>h_emg_column_index := int i\<rparr>;
                     resolution = dict_get info ''resolution'' (JList [])
                 in case py_len resolution of
                      None \<Rightarrow> ([Err_header_exception], Some h2)
                    | Some n \<Rightarrow>
                       if i < n then
                         (case py_getitem resolution i of
                            None \<Rightarrow> ([Err_header_exception], Some h2)
                          | Some r \<Rightarrow> ([], Some (h2\<lparr>h_resolution_bits := r\<rparr>)))
                       else ([Warn_resolution_not_found], Some h2))))"

text \<open>Lines 40-68.\<close>

definition extract_header :: "libs \<Rightarrow> string \<Rightarrow> diagnostic list \<times> header option" where
  "extract_header L string_data =
     (let lines = splitlines string_data in
      if length lines > 1 \<and> startswith (lines ! 1) ''#'' then
        (case json_loads L (strip (drop 1 (lines ! 1))) of
           None \<Rightarrow> ([Err_json_decode], Some default_header)
         | Some header_json \<Rightarrow>
            (case first_value header_json of
               Some (JObj info) \<Rightarrow> read_info info
             | _ \<Rightarrow> ([Err_header_exception], Some default_header)))
      else ([Warn_header_not_found], Some default_header))"

subsection \<open>Loading and pre-processing (lines 70-91)\<close>

text \<open>Lines 70-77: \<open>fs // 4\<close>, \<open>fs // 8\<close> and \<open>win_size / fs\<close> (stored in the session
  state); the result is \<open>(fs, win_size, step)\<close>.\<close>

definition window_params :: "json \<Rightarrow> py_error + (int \<times> int \<times> int)" where
  "window_params fs_value =
     (case as_int fs_value of
        None \<Rightarrow> Inl TypeError
      | Some fs \<Rightarrow>
         (let win_size = fs div 4; step = fs div 8
          in if fs = 0 then Inl ZeroDivisionError else Inr (fs, win_size, step)))"

record dataframe =
  nSeq :: "real list"
  emg_raw :: "real list"
  time :: "real list"
  emg_mv :: "real list"
  emg_processed :: "real list"
  emg_rectified :: "real list"

definition len_df :: "dataframe \<Rightarrow> nat" where
  "len_df df = length (emg_raw df)"

text \<open>\<open>df[name] = values\<close> with an array: pandas raises \<open>ValueError\<close> unless the array
  has \<open>len(df)\<close> entries.\<close>

definition column_of :: "dataframe \<Rightarrow> real list \<Rightarrow> py_error + real list" where
  "column_of df values =
     (if length values = len_df df then Inr values
      else Inl (ValueError (LengthMismatch (len_df df) (length values))))"

text \<open>Lines 81-83. \<open>read_csv\<close> returns the columns of a frame (all of one length);
  naming them \<open>['nSeq', 'emg_raw']\<close> raises \<open>ValueError\<close> unless there are two.
  \<open>fs\<close> is not zero here (line 77 has divided by it).\<close>

definition load_data :: "libs \<Rightarrow> string \<Rightarrow> int \<Rightarrow> int \<Rightarrow> py_error + dataframe" where
  "load_data L string_data emg_column_index fs =
     (case read_csv L string_data [0, emg_column_index] of
        Inl e \<Rightarrow> Inl e
      | Inr cols \<Rightarrow>
         (case cols of
            [c0, c1] \<Rightarrow>
              Inr \<lparr>nSeq = c0, emg_raw = c1,
                   time = map (\<lambda>k. real k / real_of_int fs) [0..<length c1],
                   emg_mv = [], emg_processed = [], emg_rectified = []\<rparr>
          | _ \<Rightarrow> Inl (ValueError (LengthMismatch (length cols) 2))))"

text \<open>Lines 86-91: calibration, removal of the mean, notch, bandpass, rectification.\<close>

definition preprocess :: "libs \<Rightarrow> dataframe \<Rightarrow> int \<Rightarrow> json \<Rightarrow> py_error + dataframe" where
  "preprocess L df fs resolution_bits =
     (case convert_to_mv_default (emg_raw df) resolution_bits of
        Inl e \<Rightarrow> Inl e
      | Inr mv \<Rightarrow>
         (let centred = map (\<lambda>x. x - mean mv) mv in
          case notch_filter L centred 50 fs 2 of
            Inl e \<Rightarrow> Inl e
          | Inr y1 \<Rightarrow>
             (case column_of df y1 of
                Inl e \<Rightarrow> Inl e
              | Inr notched \<Rightarrow>
                 (case bandpass_filter L notched 20 450 fs 5 of
                    Inl e \<Rightarrow> Inl e
                  | Inr y2 \<Rightarrow>
                     (case column_of df y2 of
                        Inl e \<Rightarrow> Inl e
                      | Inr filtered \<Rightarrow>
                         Inr (df\<lparr>emg_mv := mv, emg_processed := filtered,
                                 emg_rectified := map abs filtered\<rparr>))))))"

subsection \<open>Features (lines 94-107)\<close>

text \<open>Line 103: \<open>np.sum(f * Pxx) / np.sum(Pxx) if np.sum(Pxx) > 0 else 0\<close>.\<close>

definition mean_frequency :: "real list \<times> real list \<Rightarrow> npfloat" where
  "mean_frequency fP =
     (case fP of (f, Pxx) \<Rightarrow>
        if sum_list Pxx > 0 then np_divide (sum_list (map2 (*) f Pxx)) (sum_list Pxx)
        else Fin 0)"

text \<open>The body of the loop at window start \<open>i\<close>. The segment is never empty when the
  loop runs (lemma \<open>segment_full\<close> below), so \<open>mean\<close> is the mean numpy computes; the
  mean frequency is a number (lemma \<open>mean_frequency_finite\<close>), which the list stores.\<close>

definition window_features ::
  "libs \<Rightarrow> dataframe \<Rightarrow> int \<Rightarrow> int \<Rightarrow> int \<Rightarrow> py_error + (real \<times> real \<times> real)" where
  "window_features L df fs win_size i =
     (let segment = py_slice (emg_rectified df) i (i + win_size) in
      case py_index (time df) (i + win_size div 2) of
        Inl e \<Rightarrow> Inl e
      | Inr t \<Rightarrow>
         (let rms = sqrt (mean (map (\<lambda>x. x\<^sup>2) segment));
              mnf = fin_value (mean_frequency (welch L segment fs (min 128 win_size)))
          in Inr (t, rms, mnf)))"

fun feature_loop ::
  "libs \<Rightarrow> dataframe \<Rightarrow> int \<Rightarrow> int \<Rightarrow> int list \<Rightarrow> py_error + (real list \<times> real list \<times> real list)" where
  "feature_loop L df fs win_size [] = Inr ([], [], [])"
| "feature_loop L df fs win_size (i # rest) =
     (case window_features L df fs win_size i of
        Inl e \<Rightarrow> Inl e
      | Inr (t, rms, mnf) \<Rightarrow>
         (case feature_loop L df fs win_size rest of
            Inl e \<Rightarrow> Inl e
          | Inr (t_vals, rms_vals, mnf_vals) \<Rightarrow> Inr (t # t_vals, rms # rms_vals, mnf # mnf_vals)))"

text \<open>The window starts: \<open>range(0, len(df) - win_size + 1, step)\<close>.\<close>

definition window_starts :: "nat \<Rightarrow> int \<Rightarrow> int \<Rightarrow> py_error + int list" where
  "window_starts n win_size step = py_range 0 (int n - win_size + 1) step"

definition extract_features ::
  "libs \<Rightarrow> dataframe \<Rightarrow> int \<Rightarrow> int \<Rightarrow> int \<Rightarrow> py_error + (real list \<times> real list \<times> real list)" where
  "extract_features L df fs win_size step =
     (case window_starts (len_df df) win_size step of
        Inl e \<Rightarrow> Inl e
      | Inr starts \<Rightarrow> feature_loop L df fs win_size starts)"

subsection \<open>Baseline and trend (lines 110-124)\<close>

text \<open>Line 111: \<open>min(int(baseline_duration_sec / (step / fs)), len(rms_vals))\<close>. Both
  divisions are float divisions and raise \<open>ZeroDivisionError\<close> on a zero divisor.\<close>

definition baseline_windows :: "real \<Rightarrow> int \<Rightarrow> int \<Rightarrow> nat \<Rightarrow> py_error + int" where
  "baseline_windows baseline_duration_sec step fs total_windows =
     (if fs = 0 \<or> step = 0 then Inl ZeroDivisionError
      else Inr (min (py_int (double_div baseline_duration_sec
                               (double_div (real_of_int step) (real_of_int fs))))
                    (int total_windows)))"

definition baseline_stage ::
  "real \<Rightarrow> int \<Rightarrow> int \<Rightarrow> real list \<Rightarrow> real list
     \<Rightarrow> py_error + (npfloat \<times> npfloat \<times> diagnostic list)" where
  "baseline_stage baseline_duration_sec step fs rms_vals mnf_vals =
     (case baseline_windows baseline_duration_sec step fs (length rms_vals) of
        Inl e \<Rightarrow> Inl e
      | Inr num_windows_for_baseline \<Rightarrow>
         if num_windows_for_baseline = 0 then Inr (Fin 0, Fin 0, [Warn_baseline_insufficient])
         else Inr (np_mean (py_slice rms_vals 0 num_windows_for_baseline),
                   np_mean (py_slice mnf_vals 0 num_windows_for_baseline), []))"

text \<open>The result is \<open>(slope_rms, p_value_rms, slope_mnf, p_value_mnf)\<close>.\<close>

definition trend_stage ::
  "libs \<Rightarrow> real list \<Rightarrow> real list \<Rightarrow> real list
     \<Rightarrow> real option \<times> real option \<times> real option \<times> real option" where
  "trend_stage L t_vals rms_vals mnf_vals =
     (if length t_vals > 1 then
        (case linregress L t_vals rms_vals of (slope_rms, p_value_rms) \<Rightarrow>
         case linregress L t_vals mnf_vals of (slope_mnf, p_value_mnf) \<Rightarrow>
           (Some slope_rms, Some p_value_rms, Some slope_mnf, Some p_value_mnf))
      else (None, None, None, None))"

subsection \<open>\<open>process_emg_file\<close>\<close>

record outputs =
  out_df :: dataframe
  out_t_vals :: "real list"
  out_rms_vals :: "real list"
  out_mnf_vals :: "real list"
  out_rms_baseline :: npfloat
  out_mnf_baseline :: npfloat
  out_slope_rms :: "real option"
  out_p_value_rms :: "real option"
  out_slope_mnf :: "real option"
  out_p_value_mnf :: "real option"

text \<open>What the function returns: the nine \<open>None\<close> of line 61, or the ten values of line
  127.\<close>

datatype returned = Nine_None | Ten outputs

text \<open>Lines 70-127, for the header values in \<open>h\<close>.\<close>

definition process_body ::
  "libs \<Rightarrow> string \<Rightarrow> header \<Rightarrow> real \<Rightarrow> py_error + (outputs \<times> diagnostic list)" where
  "process_body L string_data h baseline_duration_sec =
     (case window_params (h_fs h) of
        Inl e \<Rightarrow> Inl e
      | Inr (fs, win_size, step) \<Rightarrow>
     (case load_data L string_data (h_emg_column_index h) fs of
        Inl e \<Rightarrow> Inl e
      | Inr df0 \<Rightarrow>
     (case preprocess L df0 fs (h_resolution_bits h) of
        Inl e \<Rightarrow> Inl e
      | Inr df \<Rightarrow>
     (case extract_features L df fs win_size step of
        Inl e \<Rightarrow> Inl e
      | Inr (t_vals, rms_vals, mnf_vals) \<Rightarrow>
     (case baseline_stage baseline_duration_sec step fs rms_vals mnf_vals of
        Inl e \<Rightarrow> Inl e
      | Inr (rms_baseline, mnf_baseline, ds) \<Rightarrow>
     (case trend_stage L t_vals rms_vals mnf_vals of
        (slope_rms, p_value_rms, slope_mnf, p_value_mnf) \<Rightarrow>
          Inr (\<lparr>out_df = df, out_t_vals = t_vals, out_rms_vals = rms_vals,
                out_mnf_vals = mnf_vals, out_rms_baseline = rms_baseline,
                out_mnf_baseline = mnf_baseline, out_slope_rms = slope_rms,
                out_p_value_rms = p_value_rms, out_slope_mnf = slope_mnf,
                out_p_value_mnf = p_value_mnf\<rparr>, ds)))))))"

definition process_emg_file ::
  "libs \<Rightarrow> string \<Rightarrow> real \<Rightarrow> diagnostic list \<times> (py_error + returned)" where
  "process_emg_file L string_data baseline_duration_sec =
     (case extract_header L string_data of
        (ds, None) \<Rightarrow> (ds, Inr Nine_None)
      | (ds, Some h) \<Rightarrow>
         (case process_body L string_data h baseline_duration_sec of
            Inl e \<Rightarrow> (ds, Inl e)
          | Inr (out, ds') \<Rightarrow> (ds @ ds', Inr (Ten out))))"

subsection \<open>The script: fatigue analysis (lines 136-262)\<close>

datatype verdict =
    Fatigue_mnf_and_rms     \<comment> \<open>lines 230 and 251\<close>
  | Fatigue_mnf             \<comment> \<open>lines 232 and 253\<close>
  | Fatigue_rms_unconfirmed \<comment> \<open>lines 234 and 255\<close>
  | No_fatigue              \<comment> \<open>lines 236 and 257\<close>

datatype ui_event =
    Ui_success                             \<comment> \<open>line 144\<close>
  | Ui_baseline npfloat npfloat            \<comment> \<open>lines 153-154\<close>
  | Ui_change npfloat npfloat              \<comment> \<open>lines 218-219: RMS change, MNF change\<close>
  | Ui_status verdict                      \<comment> \<open>lines 229-236: \<open>STATUS\<close>\<close>
  | Ui_slopes real real real real          \<comment> \<open>lines 242-243\<close>
  | Ui_status_trend verdict                \<comment> \<open>lines 250-257: \<open>STATUS TREN\<close>\<close>
  | Ui_warn_trend_insufficient             \<comment> \<open>line 259\<close>
  | Ui_note                                \<comment> \<open>line 262\<close>
  | Ui_upload_prompt                       \<comment> \<open>line 265\<close>

text \<open>Lines 215-216, inside the test of line 211: the baseline is not 0 there, so the
  \<open>else\<close> branches (an infinity) are never taken. The three operations are those of
  doubles. A \<open>nan\<close> baseline gives \<open>nan\<close>.\<close>

definition change_percent :: "real \<Rightarrow> npfloat \<Rightarrow> npfloat" where
  "change_percent final baseline =
     (case baseline of
        NaN \<Rightarrow> NaN
      | Fin b \<Rightarrow> Fin (double_mul (double_div (double_sub final b) b) 100))"

text \<open>\<open>x <= threshold\<close>: false for \<open>nan\<close>.\<close>

definition np_le :: "npfloat \<Rightarrow> real \<Rightarrow> bool" where
  "np_le x threshold = (case x of NaN \<Rightarrow> False | Fin v \<Rightarrow> v \<le> threshold)"

text \<open>Lines 229-236.\<close>

definition status_percentage :: "bool \<Rightarrow> bool \<Rightarrow> verdict" where
  "status_percentage is_fatigue_mnf is_fatigue_rms =
     (if is_fatigue_mnf \<and> is_fatigue_rms then Fatigue_mnf_and_rms
      else if is_fatigue_mnf then Fatigue_mnf
      else if is_fatigue_rms then Fatigue_rms_unconfirmed
      else No_fatigue)"

text \<open>Lines 250-257.\<close>

definition status_trend :: "bool \<Rightarrow> bool \<Rightarrow> verdict" where
  "status_trend is_fatigue_trend_mnf is_fatigue_trend_rms =
     (if is_fatigue_trend_mnf \<and> is_fatigue_trend_rms then Fatigue_mnf_and_rms
      else if is_fatigue_trend_mnf then Fatigue_mnf
      else if is_fatigue_trend_rms then Fatigue_rms_unconfirmed
      else No_fatigue)"

text \<open>Lines 241-259. Formatting a p-value that is \<open>None\<close> raises \<open>TypeError\<close>.\<close>

definition trend_report ::
  "real option \<Rightarrow> real option \<Rightarrow> real option \<Rightarrow> real option \<Rightarrow> real
     \<Rightarrow> py_error + ui_event list" where
  "trend_report slope_rms p_value_rms slope_mnf p_value_mnf alpha =
     (case (slope_mnf, slope_rms) of
        (Some s_mnf, Some s_rms) \<Rightarrow>
          (case (p_value_rms, p_value_mnf) of
             (Some p_rms, Some p_mnf) \<Rightarrow>
               (let is_fatigue_trend_mnf = (s_mnf < 0 \<and> p_mnf < alpha);
                    is_fatigue_trend_rms = (s_rms < 0 \<and> p_rms < alpha)
                in Inr [Ui_slopes s_rms p_rms s_mnf p_mnf,
                        Ui_status_trend (status_trend is_fatigue_trend_mnf is_fatigue_trend_rms)])
           | _ \<Rightarrow> Inl TypeError)
      | _ \<Rightarrow> Inr [Ui_warn_trend_insufficient])"

text \<open>The three slider values of lines 223, 224 and 245.\<close>

record sliders =
  threshold_mnf :: real
  threshold_rms :: real
  significance_alpha :: real

definition default_sliders :: sliders where
  "default_sliders = \<lparr>threshold_mnf = - 10, threshold_rms = - 10, significance_alpha = 0.05\<rparr>"

text \<open>Lines 211-262. The test of line 211 has no \<open>else\<close>: when it fails nothing is
  shown.\<close>

definition fatigue_analysis :: "outputs \<Rightarrow> sliders \<Rightarrow> py_error + ui_event list" where
  "fatigue_analysis r sl =
     (if length (out_t_vals r) > 0 \<and> out_rms_baseline r \<noteq> Fin 0 \<and> out_mnf_baseline r \<noteq> Fin 0
      then
        (case py_index (out_rms_vals r) (- 1) of
           Inl e \<Rightarrow> Inl e
         | Inr final_rms \<Rightarrow>
        (case py_index (out_mnf_vals r) (- 1) of
           Inl e \<Rightarrow> Inl e
         | Inr final_mnf \<Rightarrow>
            (let rms_change_percent = change_percent final_rms (out_rms_baseline r);
                 mnf_change_percent = change_percent final_mnf (out_mnf_baseline r);
                 is_fatigue_mnf = np_le mnf_change_percent (threshold_mnf sl);
                 is_fatigue_rms = np_le rms_change_percent (threshold_rms sl)
             in case trend_report (out_slope_rms r) (out_p_value_rms r)
                       (out_slope_mnf r) (out_p_value_mnf r) (significance_alpha sl) of
                  Inl e \<Rightarrow> Inl e
                | Inr trend_events \<Rightarrow>
                    Inr ([Ui_change rms_change_percent mnf_change_percent,
                          Ui_status (status_percentage is_fatigue_mnf is_fatigue_rms)]
                         @ trend_events @ [Ui_note]))))
      else Inr [])"

text \<open>Lines 134-265, without the plots: \<open>uploaded\<close> is the text of the uploaded file,
  if any. Line 139 unpacks ten values: the nine \<open>None\<close> of line 61 raise \<open>ValueError\<close>
  there. The first component of the ten is always a frame, never \<open>None\<close>.\<close>

definition script ::
  "libs \<Rightarrow> string option \<Rightarrow> sliders \<Rightarrow> diagnostic list \<times> (py_error + ui_event list)" where
  "script L uploaded sl =
     (case uploaded of
        None \<Rightarrow> ([], Inr [Ui_upload_prompt])
      | Some string_data \<Rightarrow>
         (case process_emg_file L string_data 5 of
            (ds, Inl e) \<Rightarrow> (ds, Inl e)
          | (ds, Inr Nine_None) \<Rightarrow> (ds, Inl (ValueError (UnpackArity 10 9)))
          | (ds, Inr (Ten r)) \<Rightarrow>
             (case fatigue_analysis r sl of
                Inl e \<Rightarrow> (ds, Inl e)
              | Inr events \<Rightarrow>
                 (ds, Inr ([Ui_success, Ui_baseline (out_rms_baseline r) (out_mnf_baseline r)]
                           @ events)))))"

subsection \<open>Quantities of the specification\<close>


text \<open>The number of baseline windows in the words of the specification (section 4.5):
  \<open>min(floor(baseline_duration_sec / (step/fs)), total_windows)\<close>, the quotients being
  those of doubles.\<close>

definition baseline_count_spec :: "real \<Rightarrow> int \<Rightarrow> int \<Rightarrow> nat \<Rightarrow> int" where
  "baseline_count_spec baseline_duration_sec step fs total_windows =
     min \<lfloor>double_div baseline_duration_sec (double_div (real_of_int step) (real_of_int fs))\<rfloor>
         (int total_windows)"

text \<open>A frame as \<open>process_emg_file\<close> builds it: every column has \<open>len(df)\<close> entries.\<close>

definition wf_df :: "dataframe \<Rightarrow> bool" where
  "wf_df df = (length (time df) = len_df df \<and> length (emg_rectified df) = len_df df)"

text \<open>The ten values as \<open>process_emg_file\<close> returns them: one RMS and one MNF value
  per window time, and the four results of the regressions present or absent
  together.\<close>

definition wf_outputs :: "outputs \<Rightarrow> bool" where
  "wf_outputs r =
     (length (out_rms_vals r) = length (out_t_vals r)
      \<and> length (out_mnf_vals r) = length (out_t_vals r)
      \<and> (out_p_value_rms r = None) = (out_slope_rms r = None)
      \<and> (out_slope_mnf r = None) = (out_slope_rms r = None)
      \<and> (out_p_value_mnf r = None) = (out_slope_rms r = None))"

subsection \<open>What the theorems assume of the libraries\<close>

text \<open>scipy's filter design rejects a critical frequency outside \<open>0 < Wn < 1\<close> (as a
  fraction of the Nyquist frequency) with \<open>ValueError\<close>.\<close>

definition butter_rejects :: "libs \<Rightarrow> bool" where
  "butter_rejects L =
     (\<forall>order low high bt.
        low \<le> 0 \<or> 1 \<le> low \<or> high \<le> 0 \<or> 1 \<le> high
        \<longrightarrow> butter L order low high bt = Inl (ValueError CriticalFrequencies))"

text \<open>For a band filter of order \<open>n\<close> with valid critical frequencies it returns
  \<open>2 * n + 1\<close> coefficients in each array.\<close>

definition butter_designs :: "libs \<Rightarrow> bool" where
  "butter_designs L =
     (\<forall>order low high bt.
        0 < low \<and> low < high \<and> high < 1
        \<longrightarrow> (\<exists>b a. butter L order low high bt = Inr (b, a)
                   \<and> length b = 2 * order + 1 \<and> length a = 2 * order + 1))"

text \<open>\<open>filtfilt\<close> pads each end with \<open>padlen = 3 * max(len(a), len(b))\<close> samples: an
  input of at most \<open>padlen\<close> samples raises \<open>ValueError\<close>, a longer one gives an output
  of the same length.\<close>

definition filtfilt_pads :: "libs \<Rightarrow> bool" where
  "filtfilt_pads L =
     (\<forall>b a x.
        (length x \<le> 3 * max (length a) (length b)
           \<longrightarrow> filtfilt L b a x
                 = Inl (ValueError (InputShorterThanPadlen (3 * max (length a) (length b)))))
      \<and> (3 * max (length a) (length b) < length x
           \<longrightarrow> (\<exists>y. filtfilt L b a x = Inr y \<and> length y = length x)))"

text \<open>\<open>welch\<close> returns frequencies and a power spectral density of one length, both
  non-negative (for a positive sampling rate), and the zero density for the zero
  signal.\<close>

definition welch_psd :: "libs \<Rightarrow> bool" where
  "welch_psd L =
     (\<forall>x fs nperseg.
        length (fst (welch L x fs nperseg)) = length (snd (welch L x fs nperseg))
      \<and> (0 < fs \<longrightarrow> (\<forall>v \<in> set (fst (welch L x fs nperseg)). 0 \<le> v))
      \<and> (\<forall>p \<in> set (snd (welch L x fs nperseg)). 0 \<le> p)
      \<and> ((\<forall>v \<in> set x. v = 0) \<longrightarrow> (\<forall>p \<in> set (snd (welch L x fs nperseg)). p = 0)))"

subsection \<open>Sample inputs\<close>

text \<open>Stand-ins for the libraries, used to run the model on concrete inputs: a JSON
  reader and a table reader that know the sample files below, a filter design that
  checks its critical frequencies and returns \<open>2 * order + 1\<close> coefficients, a
  zero-phase filter that checks the length of its input against the padding and
  returns the input, a two-bin spectrum carrying the energy of the segment, and a flat
  regression.\<close>

definition sample_json :: json where
  "sample_json =
     JObj [(''dev'', JObj [(''sampling rate'', JInt 1000),
                           (''column'', JList [JStr ''nSeq'', JStr ''A2'']),
                           (''resolution'', JList [JInt 4, JInt 10])])]"

definition sample_header_text :: string where
  \<open>sample_header_text =
     ''{"dev": {"sampling rate": 1000, "column": ["nSeq", "A2"], "resolution": [4, 10]}}''\<close>

text \<open>A file whose header declares the channels \<open>nSeq\<close> and \<open>A2\<close>, and no \<open>A1\<close>.\<close>

definition sample_file :: string where
  "sample_file =
     ''# OpenSignals Text File Format'' @ [CHR 0x0A] @
     ''# '' @ sample_header_text @ [CHR 0x0A] @
     ''# EndOfHeader'' @ [CHR 0x0A] @
     ''0 512''"

text \<open>A file whose header declares 500 Hz and the channel \<open>A1\<close> in column 1.\<close>

definition sample_json_500 :: json where
  "sample_json_500 =
     JObj [(''dev'', JObj [(''sampling rate'', JInt 500),
                           (''column'', JList [JStr ''nSeq'', JStr ''A1'']),
                           (''resolution'', JList [JInt 4, JInt 10])])]"

definition sample_header_text_500 :: string where
  \<open>sample_header_text_500 =
     ''{"dev": {"sampling rate": 500, "column": ["nSeq", "A1"], "resolution": [4, 10]}}''\<close>

definition sample_file_500 :: string where
  "sample_file_500 =
     ''# OpenSignals Text File Format'' @ [CHR 0x0A] @
     ''# '' @ sample_header_text_500 @ [CHR 0x0A] @
     ''# EndOfHeader'' @ [CHR 0x0A] @
     ''0 512''"

text \<open>A recording with a header declaring 1000 Hz and the channel \<open>A1\<close> in column 1,
  and 250 rows whose raw count is the mid-scale 512.\<close>

definition sample_json_1000 :: json where
  "sample_json_1000 =
     JObj [(''dev'', JObj [(''sampling rate'', JInt 1000),
                           (''column'', JList [JStr ''nSeq'', JStr ''A1'']),
                           (''resolution'', JList [JInt 4, JInt 10])])]"

definition sample_header_text_1000 :: string where
  \<open>sample_header_text_1000 =
     ''{"dev": {"sampling rate": 1000, "column": ["nSeq", "A1"], "resolution": [4, 10]}}''\<close>

definition sample_rows :: string where
  "sample_rows = concat (replicate 250 (''0 512'' @ [CHR 0x0A]))"

definition sample_recording :: string where
  "sample_recording =
     ''# OpenSignals Text File Format'' @ [CHR 0x0A] @
     ''# '' @ sample_header_text_1000 @ [CHR 0x0A] @
     ''# EndOfHeader'' @ [CHR 0x0A] @
     sample_rows"

definition sample_libs :: libs where
  "sample_libs =
     \<lparr>json_loads = (\<lambda>s. if s = sample_header_text then Some sample_json
                      else if s = sample_header_text_500 then Some sample_json_500
                      else if s = sample_header_text_1000 then Some sample_json_1000
                      else None),
      read_csv = (\<lambda>s usecols.
                 if s = sample_recording \<and> usecols = [0, 1]
                 then Inr [replicate 250 0, replicate 250 512]
                 else if s = sample_file_500 \<and> usecols = [0, 1] then Inr [[0], [512]]
                 else Inl (LibraryError ''pandas'')),
      butter = (\<lambda>order low high bt.
                 if 0 < low \<and> low < high \<and> high < 1
                 then Inr (replicate (2 * order + 1) 1, replicate (2 * order + 1) 1)
                 else Inl (ValueError CriticalFrequencies)),
      filtfilt = (\<lambda>b a x.
                 if length x \<le> 3 * max (length a) (length b)
                 then Inl (ValueError (InputShorterThanPadlen (3 * max (length a) (length b))))
                 else Inr x),
      welch = (\<lambda>x fs nperseg. ([0, real_of_int fs / 2], [0, sum_list (map (\<lambda>v. v\<^sup>2) x)])),
      linregress = (\<lambda>x y. (0, 1))\<rparr>"

text \<open>The number of windows and the four regression results of a run that returned
  ten values.\<close>

definition run_summary ::
  "diagnostic list \<times> (py_error + returned)
     \<Rightarrow> (nat \<times> real option \<times> real option \<times> real option \<times> real option) option" where
  "run_summary res =
     (case snd res of
        Inr (Ten r) \<Rightarrow>
          Some (length (out_t_vals r), out_slope_rms r, out_p_value_rms r,
                out_slope_mnf r, out_p_value_mnf r)
      | _ \<Rightarrow> None)"

text \<open>A frame of \<open>n\<close> samples whose rectified signal is constant.\<close>

definition sample_df :: "nat \<Rightarrow> int \<Rightarrow> real \<Rightarrow> dataframe" where
  "sample_df n fs amplitude =
     \<lparr>nSeq = replicate n 0, emg_raw = replicate n 512,
      time = map (\<lambda>k. real k / real_of_int fs) [0..<n],
      emg_mv = replicate n 0, emg_processed = replicate n amplitude,
      emg_rectified = replicate n \<bar>amplitude\<bar>\<rparr>"

text \<open>Ten values with a final RMS of 0.85 (the double nearest to it) against a baseline
  of 1 and a final MNF of 95 against a baseline of 100, for given regression results.\<close>

definition sample_outputs ::
  "real option \<Rightarrow> real option \<Rightarrow> real option \<Rightarrow> real option \<Rightarrow> outputs" where
  "sample_outputs slope_rms p_value_rms slope_mnf p_value_mnf =
     \<lparr>out_df = sample_df 375 1000 1, out_t_vals = [1 / 8, 1 / 4],
      out_rms_vals = [1, fl (85 / 100)], out_mnf_vals = [100, 95],
      out_rms_baseline = Fin 1, out_mnf_baseline = Fin 100,
      out_slope_rms = slope_rms, out_p_value_rms = p_value_rms,
      out_slope_mnf = slope_mnf, out_p_value_mnf = p_value_mnf\<rparr>"

section \<open>Auxiliary lemmas\<close>

subsection \<open>Rounding to a double\<close>

lemma fl_eval:
  assumes "2 powi e \<le> \<bar>x\<bar>" and "\<bar>x\<bar> < 2 powi (e + 1)"
  shows "fl x = of_int (round_half_even (x / 2 powi (e - 52))) * 2 powi (e - 52)"
proof -
  have "(0 :: real) < 2 powi e" by simp
  then have pos: "0 < \<bar>x\<bar>" using assms(1) by linarith
  have "(2 :: real) powr real_of_int e = 2 powi e"
    and "(2 :: real) powr real_of_int (e + 1) = 2 powi (e + 1)"
    by (rule powr_real_of_int'; simp)+
  then have "2 powr real_of_int e \<le> \<bar>x\<bar> \<and> \<bar>x\<bar> < 2 powr real_of_int (e + 1)"
    using assms by presburger
  then have "\<lfloor>log 2 \<bar>x\<bar>\<rfloor> = e"
    using pos floor_log_eq_powr_iff [of "\<bar>x\<bar>" 2 e] by simp
  then show ?thesis using pos by (simp add: fl_def Let_def)
qed

lemma fl_nonneg: "0 \<le> x \<Longrightarrow> 0 \<le> fl x"
  by (auto simp: fl_def Let_def round_half_even_def intro!: mult_nonneg_nonneg)

lemma fl_eighth: "fl (1 / 8) = 1 / 8"
  by (subst fl_eval [where e = "- 3"])
     (simp_all add: round_half_even_def power_int_minus Let_def)

lemma fl_forty: "fl 40 = 40"
  by (subst fl_eval [where e = 5])
     (simp_all add: round_half_even_def power_int_minus Let_def)

text \<open>Lines 215-216 on the values of the example: a final MNF of 95 against 100, a
  final RMS of 0.85 against 1, and a final value of 71 against 100, which is not a
  change of \<open>-29\<close> but of \<open>-28.999999999999996\<close>.\<close>

lemma change_example_mnf: "double_mul (double_div (double_sub 95 100) 100) 100 = - 5"
proof -
  have a: "fl (95 - 100) = - 5"
    by (subst fl_eval [where e = 2])
       (simp_all add: round_half_even_def power_int_minus Let_def)
  have b: "fl (- 5 / 100) = - 3602879701896397 / 72057594037927936"
    by (subst fl_eval [where e = "- 5"])
       (simp_all add: round_half_even_def power_int_minus Let_def)
  have c: "fl (- 3602879701896397 / 72057594037927936 * 100) = - 5"
    by (subst fl_eval [where e = 2])
       (simp_all add: round_half_even_def power_int_minus Let_def)
  show ?thesis by (simp only: double_mul_def double_div_def double_sub_def a b c)
qed

lemma change_example_rms:
  "double_mul (double_div (double_sub (fl (85 / 100)) 1) 1) 100
     = - 8444249301319681 / 562949953421312"
proof -
  have a: "fl (85 / 100) = 7656119366529843 / 9007199254740992"
    by (subst fl_eval [where e = "- 1"])
       (simp_all add: round_half_even_def power_int_minus Let_def)
  have b: "fl (7656119366529843 / 9007199254740992 - 1) = - 1351079888211149 / 9007199254740992"
    by (subst fl_eval [where e = "- 3"])
       (simp_all add: round_half_even_def power_int_minus Let_def)
  have c: "fl (- 1351079888211149 / 9007199254740992 / 1) = - 1351079888211149 / 9007199254740992"
    by (subst fl_eval [where e = "- 3"])
       (simp_all add: round_half_even_def power_int_minus Let_def)
  have d: "fl (- 1351079888211149 / 9007199254740992 * 100)
             = - 8444249301319681 / 562949953421312"
    by (subst fl_eval [where e = 3])
       (simp_all add: round_half_even_def power_int_minus Let_def)
  show ?thesis by (simp only: double_mul_def double_div_def double_sub_def a b c d)
qed

lemma change_example_rms_17:
  "double_mul (double_div (double_sub (fl (17 / 20)) 1) 1) 100
     = - 8444249301319681 / 562949953421312"
proof -
  have "(17 / 20 :: real) = 85 / 100" by simp
  then show ?thesis by (simp only: change_example_rms)
qed

lemma change_example_71:
  "double_mul (double_div (double_sub 71 100) 100) 100 = - 8162774324609023 / 281474976710656"
proof -
  have a: "fl (71 - 100) = - 29"
    by (subst fl_eval [where e = 4])
       (simp_all add: round_half_even_def power_int_minus Let_def)
  have b: "fl (- 29 / 100) = - 5224175567749775 / 18014398509481984"
    by (subst fl_eval [where e = "- 2"])
       (simp_all add: round_half_even_def power_int_minus Let_def)
  have c: "fl (- 5224175567749775 / 18014398509481984 * 100)
             = - 8162774324609023 / 281474976710656"
    by (subst fl_eval [where e = 4])
       (simp_all add: round_half_even_def power_int_minus Let_def)
  show ?thesis by (simp only: double_mul_def double_div_def double_sub_def a b c)
qed

subsection \<open>The window loop\<close>







text \<open>Inside the loop the segment is a full window and the centre index is in range.\<close>

lemma segment_full:
  assumes "0 \<le> i" and "0 \<le> win_size" and "i + win_size \<le> int (length xs)"
  shows "py_slice xs i (i + win_size) = take (nat win_size) (drop (nat i) xs)"
    and "length (py_slice xs i (i + win_size)) = nat win_size"
proof -
  have a: "nat (i + win_size) - nat i = nat win_size" using assms by linarith
  have b: "nat (i + win_size) \<le> length xs" "nat i \<le> length xs" using assms by linarith+
  show "py_slice xs i (i + win_size) = take (nat win_size) (drop (nat i) xs)"
    using assms a b by (simp add: py_slice_def slice_bound_def Let_def min_def)
  then show "length (py_slice xs i (i + win_size)) = nat win_size"
    using assms by simp
qed

lemma window_features_ok:
  assumes "0 \<le> i" and "0 < win_size" and "i + win_size \<le> int (len_df df)"
    and "length (time df) = len_df df"
  shows "window_features L df fs win_size i
           = Inr (time df ! nat (i + win_size div 2),
                  sqrt (mean (map (\<lambda>x. x\<^sup>2) (py_slice (emg_rectified df) i (i + win_size)))),
                  fin_value (mean_frequency
                    (welch L (py_slice (emg_rectified df) i (i + win_size)) fs
                       (min 128 win_size))))"
proof -
  have "0 \<le> i + win_size div 2" using assms(1,2) by (simp add: pos_imp_zdiv_nonneg_iff)
  moreover have "i + win_size div 2 < int (length (time df))"
  proof -
    have "win_size div 2 < win_size" using assms(2) by linarith
    then show ?thesis using assms(3,4) by linarith
  qed
  ultimately show ?thesis
    by (simp add: window_features_def py_index_def Let_def)
qed

lemma feature_loop_lengths:
  "feature_loop L df fs win_size starts = Inr (t_vals, rms_vals, mnf_vals)
   \<Longrightarrow> length t_vals = length starts \<and> length rms_vals = length starts
       \<and> length mnf_vals = length starts"
  by (induction starts arbitrary: t_vals rms_vals mnf_vals)
     (auto split: sum.splits prod.splits)



subsection \<open>The baseline\<close>

lemma py_slice_prefix:
  "0 \<le> k \<Longrightarrow> py_slice xs 0 k = take (nat k) xs"
  by (simp add: py_slice_def slice_bound_def Let_def min_def)

lemma baseline_windows_nonneg:
  assumes "0 \<le> baseline_duration_sec" and "0 < step" and "0 < fs"
  shows "baseline_windows baseline_duration_sec step fs n_total
           = Inr (baseline_count_spec baseline_duration_sec step fs n_total)"
    and "0 \<le> baseline_count_spec baseline_duration_sec step fs n_total"
    and "baseline_count_spec baseline_duration_sec step fs n_total \<le> int n_total"
proof -
  have "0 \<le> double_div (real_of_int step) (real_of_int fs)"
    using assms(2,3) by (simp add: double_div_def fl_nonneg)
  then have q: "0 \<le> double_div baseline_duration_sec
                       (double_div (real_of_int step) (real_of_int fs))"
    using assms(1) by (simp add: double_div_def [of baseline_duration_sec] fl_nonneg)
  then show "baseline_windows baseline_duration_sec step fs n_total
           = Inr (baseline_count_spec baseline_duration_sec step fs n_total)"
    using assms by (simp add: baseline_windows_def baseline_count_spec_def py_int_def)
  show "0 \<le> baseline_count_spec baseline_duration_sec step fs n_total"
    using q by (simp add: baseline_count_spec_def)
  show "baseline_count_spec baseline_duration_sec step fs n_total \<le> int n_total"
    by (simp add: baseline_count_spec_def)
qed

lemma baseline_count_default: "baseline_count_spec 5 125 1000 n_total = min 40 (int n_total)"
  by (simp add: baseline_count_spec_def double_div_def fl_eighth fl_forty)

lemma np_mean_take:
  "0 < k \<Longrightarrow> k \<le> length xs \<Longrightarrow> np_mean (take k xs) = Fin (sum_list (take k xs) / real k)"
  by (auto simp: np_mean_def mean_def min_def)

subsection \<open>The fatigue analysis\<close>

lemma py_index_last:
  assumes "xs \<noteq> []"
  shows "py_index xs (- 1) = Inr (last xs)"
proof -
  have "0 < length xs" using assms by simp
  then have "nat (- 1 + int (length xs)) = length xs - 1" by linarith
  then show ?thesis using assms by (simp add: py_index_def Let_def last_conv_nth)
qed

lemma status_percentage_cases:
  "(status_percentage fm fr = Fatigue_mnf_and_rms) = (fm \<and> fr)"
  "(status_percentage fm fr = Fatigue_mnf) = (fm \<and> \<not> fr)"
  "(status_percentage fm fr = Fatigue_rms_unconfirmed) = (\<not> fm \<and> fr)"
  "(status_percentage fm fr = No_fatigue) = (\<not> fm \<and> \<not> fr)"
  by (auto simp: status_percentage_def)

lemma trend_report_total:
  assumes "wf_outputs r"
  shows "\<exists>evs. trend_report (out_slope_rms r) (out_p_value_rms r) (out_slope_mnf r)
                  (out_p_value_mnf r) alpha = Inr evs"
proof (cases "out_slope_rms r")
  case None
  then show ?thesis by (simp add: trend_report_def split: option.splits)
next
  case (Some a)
  then have "out_p_value_rms r \<noteq> None" "out_slope_mnf r \<noteq> None" "out_p_value_mnf r \<noteq> None"
    using assms by (auto simp: wf_outputs_def)
  then show ?thesis using Some by (auto simp: trend_report_def Let_def)
qed

lemma fatigue_analysis_gate_closed:
  "out_t_vals r = [] \<or> out_rms_baseline r = Fin 0 \<or> out_mnf_baseline r = Fin 0
   \<Longrightarrow> fatigue_analysis r sl = Inr []"
  by (auto simp: fatigue_analysis_def)

lemma fatigue_analysis_gate_open:
  assumes "wf_outputs r" and "out_t_vals r \<noteq> []"
    and "out_rms_baseline r \<noteq> Fin 0" and "out_mnf_baseline r \<noteq> Fin 0"
    and "trend_report (out_slope_rms r) (out_p_value_rms r) (out_slope_mnf r)
           (out_p_value_mnf r) (significance_alpha sl) = Inr evs"
  shows "fatigue_analysis r sl
           = Inr ([Ui_change (change_percent (last (out_rms_vals r)) (out_rms_baseline r))
                             (change_percent (last (out_mnf_vals r)) (out_mnf_baseline r)),
                   Ui_status (status_percentage
                     (np_le (change_percent (last (out_mnf_vals r)) (out_mnf_baseline r))
                            (threshold_mnf sl))
                     (np_le (change_percent (last (out_rms_vals r)) (out_rms_baseline r))
                            (threshold_rms sl)))]
                  @ evs @ [Ui_note])"
proof -
  have "out_rms_vals r \<noteq> []" "out_mnf_vals r \<noteq> []"
    using assms(1,2) by (auto simp: wf_outputs_def)
  then have "py_index (out_rms_vals r) (- 1) = Inr (last (out_rms_vals r))"
    "py_index (out_mnf_vals r) (- 1) = Inr (last (out_mnf_vals r))"
    by (simp_all add: py_index_last)
  then show ?thesis using assms(2-5)
    by (simp add: fatigue_analysis_def Let_def)
qed

lemma status_trend_eq: "status_trend a b = status_percentage a b"
  by (simp add: status_trend_def status_percentage_def)

lemma trend_stage_absent:
  "(trend_stage L t_vals rms_vals mnf_vals = (None, None, None, None)) = (length t_vals \<le> 1)"
  by (auto simp: trend_stage_def split: prod.splits)

subsection \<open>The header\<close>

lemma extract_header_no_header:
  assumes "length (splitlines plain_text) \<le> 1 \<or> \<not> startswith (splitlines plain_text ! 1) ''#''"
  shows "extract_header L plain_text = ([Warn_header_not_found], Some default_header)"
  using assms by (auto simp: extract_header_def Let_def)

lemma read_info_no_A1:
  assumes "dict_get info ''column'' (JList []) = JList columns" and "JStr ''A1'' \<notin> set columns"
  shows "read_info info = ([Err_A1_not_found], None)"
  using assms by (simp add: read_info_def Let_def)

lemma extract_header_no_A1:
  assumes "splitlines string_data = first_line # second_line # more_lines"
    and "startswith second_line ''#''"
    and "json_loads L (strip (drop 1 second_line))
           = Some (JObj ((device_id, JObj info) # other_devices))"
    and "dict_get info ''column'' (JList []) = JList columns"
    and "JStr ''A1'' \<notin> set columns"
  shows "extract_header L string_data = ([Err_A1_not_found], None)"
  using assms(1-3) read_info_no_A1 [OF assms(4,5)]
  by (simp add: extract_header_def Let_def)

lemma sample_file_lines:
  "splitlines sample_file
     = [''# OpenSignals Text File Format'', ''# '' @ sample_header_text, ''# EndOfHeader'',
        ''0 512'']"
  by (simp add: splitlines_def sample_file_def sample_header_text_def is_linebreak_def)

lemma sample_file_json:
  "json_loads sample_libs (strip (drop 1 (''# '' @ sample_header_text)))
     = Some (JObj ((''dev'', JObj [(''sampling rate'', JInt 1000),
                           (''column'', JList [JStr ''nSeq'', JStr ''A2'']),
                           (''resolution'', JList [JInt 4, JInt 10])]) # []))"
  by (simp add: sample_libs_def strip_def sample_header_text_def is_space_def sample_json_def)

subsection \<open>RMS and mean frequency\<close>

lemma sum_list_squares_nonneg: "0 \<le> sum_list (map (\<lambda>x. x\<^sup>2) (xs :: real list))"
  by (rule sum_list_nonneg) auto

lemma rms_nonneg: "0 \<le> sqrt (mean (map (\<lambda>x. x\<^sup>2) xs))"
  by (simp add: mean_def sum_list_squares_nonneg)

lemma sum_list_all_zero: "\<forall>p \<in> set xs. p = 0 \<Longrightarrow> sum_list (xs :: real list) = 0"
  by (induction xs) auto

lemma rms_zero:
  assumes "\<forall>x \<in> set xs. x = 0"
  shows "sqrt (mean (map (\<lambda>x. x\<^sup>2) xs)) = 0"
proof -
  have "\<forall>p \<in> set (map (\<lambda>x. x\<^sup>2) xs). p = 0" using assms by simp
  then have "sum_list (map (\<lambda>x. x\<^sup>2) xs) = 0" by (rule sum_list_all_zero)
  then show ?thesis by (simp add: mean_def)
qed

lemma sum_list_products_nonneg:
  assumes "\<forall>v \<in> set f. 0 \<le> v" and "\<forall>p \<in> set Pxx. 0 \<le> p"
  shows "0 \<le> sum_list (map2 (*) f (Pxx :: real list))"
proof (rule sum_list_nonneg)
  fix x assume "x \<in> set (map2 (*) f Pxx)"
  then obtain a b where "(a, b) \<in> set (zip f Pxx)" and x: "x = a * b" by auto
  then have "a \<in> set f" "b \<in> set Pxx" by (auto dest: set_zip_leftD set_zip_rightD)
  then show "0 \<le> x" using assms x by simp
qed

lemma mean_frequency_nonneg:
  assumes "\<forall>v \<in> set f. 0 \<le> v" and "\<forall>p \<in> set Pxx. 0 \<le> p"
  shows "0 \<le> fin_value (mean_frequency (f, Pxx))"
  using sum_list_products_nonneg [OF assms] by (simp add: mean_frequency_def np_divide_def)

lemma mean_frequency_guard:
  assumes "\<forall>p \<in> set Pxx. 0 \<le> p"
  shows "mean_frequency (f, Pxx)
           = Fin (if sum_list Pxx = 0 then 0 else sum_list (map2 (*) f Pxx) / sum_list Pxx)"
proof -
  have "0 \<le> sum_list Pxx" using assms by (simp add: sum_list_nonneg)
  then show ?thesis by (auto simp: mean_frequency_def np_divide_def)
qed

lemma sample_welch_psd: "welch_psd sample_libs"
  by (simp add: welch_psd_def sample_libs_def sum_list_squares_nonneg sum_list_all_zero)

lemma feature_loop_all:
  assumes "\<And>i t rms mnf. window_features L df fs win_size i = Inr (t, rms, mnf) \<Longrightarrow> P rms mnf"
  shows "feature_loop L df fs win_size starts = Inr (t_vals, rms_vals, mnf_vals)
         \<Longrightarrow> (\<forall>rms \<in> set rms_vals. \<exists>mnf. P rms mnf) \<and> (\<forall>mnf \<in> set mnf_vals. \<exists>rms. P rms mnf)"
proof (induction starts arbitrary: t_vals rms_vals mnf_vals)
  case Nil
  then show ?case by simp
next
  case (Cons i rest)
  obtain t r m where w: "window_features L df fs win_size i = Inr (t, r, m)"
    using Cons.prems by (auto split: sum.splits)
  obtain ts rs ms where l: "feature_loop L df fs win_size rest = Inr (ts, rs, ms)"
    using Cons.prems w by (auto split: sum.splits)
  have eq: "rms_vals = r # rs" "mnf_vals = m # ms" using Cons.prems w l by simp_all
  have "P r m" using assms w by blast
  then show ?case using Cons.IH [OF l] eq by auto
qed

lemma window_features_nonneg:
  assumes "welch_psd L" and "0 < fs"
    and "window_features L df fs win_size i = Inr (t, rms, mnf)"
  shows "0 \<le> rms \<and> 0 \<le> mnf"
proof -
  let ?seg = "py_slice (emg_rectified df) i (i + win_size)"
  let ?w = "welch L ?seg fs (min 128 win_size)"
  have r: "rms = sqrt (mean (map (\<lambda>x. x\<^sup>2) ?seg))"
    and m: "mnf = fin_value (mean_frequency ?w)"
    using assms(3) by (auto simp: window_features_def Let_def split: sum.splits)
  have "\<forall>v \<in> set (fst ?w). 0 \<le> v" "\<forall>p \<in> set (snd ?w). 0 \<le> p"
    using assms(1,2) unfolding welch_psd_def by blast+
  then have "0 \<le> fin_value (mean_frequency (fst ?w, snd ?w))" by (rule mean_frequency_nonneg)
  then show ?thesis using r m rms_nonneg by simp
qed

lemma sample_features:
  "extract_features sample_libs (sample_df 375 1000 1) 1000 250 125
     = Inr ([1 / 8, 1 / 4], [1, 1], [500, 500])"
proof -
  have ws: "window_starts 375 250 125 = Inr [0, 125]"
    by (simp add: window_starts_def py_range_def range_up.simps)
  have w0: "window_features sample_libs (sample_df 375 1000 1) 1000 250 0 = Inr (1 / 8, 1, 500)"
    by (simp add: window_features_def py_index_def py_slice_def slice_bound_def sample_df_def
          sample_libs_def mean_def mean_frequency_def np_divide_def sum_list_replicate Let_def)
  have w1: "window_features sample_libs (sample_df 375 1000 1) 1000 250 125 = Inr (1 / 4, 1, 500)"
    by (simp add: window_features_def py_index_def py_slice_def slice_bound_def sample_df_def
          sample_libs_def mean_def mean_frequency_def np_divide_def sum_list_replicate Let_def)
  show ?thesis
    using ws w0 w1 by (simp add: extract_features_def len_df_def sample_df_def)
qed

subsection \<open>The filters\<close>

lemma notch_short:
  assumes "butter_designs L" and "filtfilt_pads L" and "102 < fs" and "length signal \<le> 15"
  shows "notch_filter L signal 50 fs 2 = Inl (ValueError (InputShorterThanPadlen 15))"
proof -
  let ?nyq = "real_of_int fs / 2"
  have fs: "102 < real_of_int fs" using assms(3) by linarith
  have nyq: "51 < ?nyq" using fs by simp
  have "0 < (50 - 1) / ?nyq \<and> (50 - 1) / ?nyq < (50 + 1) / ?nyq \<and> (50 + 1) / ?nyq < 1"
    using nyq by (simp add: divide_strict_right_mono)
  then obtain b a where ba: "butter L 2 ((50 - 1) / ?nyq) ((50 + 1) / ?nyq) Bandstop = Inr (b, a)"
    and len: "length b = 2 * 2 + 1" "length a = 2 * 2 + 1"
    using assms(1) unfolding butter_designs_def by blast
  have "length signal \<le> 3 * max (length a) (length b)" using assms(4) len by simp
  then have "filtfilt L b a signal
        = Inl (ValueError (InputShorterThanPadlen (3 * max (length a) (length b))))"
    using assms(2) unfolding filtfilt_pads_def by blast
  then show ?thesis using ba len nyq by (simp add: notch_filter_def Let_def)
qed

lemma notch_long:
  assumes "butter_designs L" and "filtfilt_pads L" and "102 < fs" and "15 < length signal"
  shows "\<exists>y. notch_filter L signal 50 fs 2 = Inr y \<and> length y = length signal"
proof -
  let ?nyq = "real_of_int fs / 2"
  have fs: "102 < real_of_int fs" using assms(3) by linarith
  have nyq: "51 < ?nyq" using fs by simp
  have "0 < (50 - 1) / ?nyq \<and> (50 - 1) / ?nyq < (50 + 1) / ?nyq \<and> (50 + 1) / ?nyq < 1"
    using nyq by (simp add: divide_strict_right_mono)
  then obtain b a where ba: "butter L 2 ((50 - 1) / ?nyq) ((50 + 1) / ?nyq) Bandstop = Inr (b, a)"
    and len: "length b = 2 * 2 + 1" "length a = 2 * 2 + 1"
    using assms(1) unfolding butter_designs_def by blast
  have "3 * max (length a) (length b) < length signal" using assms(4) len by simp
  then have "\<exists>y. filtfilt L b a signal = Inr y \<and> length y = length signal"
    using assms(2) unfolding filtfilt_pads_def by blast
  then show ?thesis using ba nyq by (simp add: notch_filter_def Let_def)
qed

lemma bandpass_short:
  assumes "butter_designs L" and "filtfilt_pads L" and "900 < fs" and "length signal \<le> 33"
  shows "bandpass_filter L signal 20 450 fs 5 = Inl (ValueError (InputShorterThanPadlen 33))"
proof -
  let ?nyq = "real_of_int fs / 2"
  have fs: "900 < real_of_int fs" using assms(3) by linarith
  have nyq: "450 < ?nyq" using fs by simp
  have "0 < 20 / ?nyq \<and> 20 / ?nyq < 450 / ?nyq \<and> 450 / ?nyq < 1"
    using nyq by (simp add: divide_strict_right_mono)
  then obtain b a where ba: "butter L 5 (20 / ?nyq) (450 / ?nyq) Bandpass = Inr (b, a)"
    and len: "length b = 2 * 5 + 1" "length a = 2 * 5 + 1"
    using assms(1) unfolding butter_designs_def by blast
  have "length signal \<le> 3 * max (length a) (length b)" using assms(4) len by simp
  then have "filtfilt L b a signal
        = Inl (ValueError (InputShorterThanPadlen (3 * max (length a) (length b))))"
    using assms(2) unfolding filtfilt_pads_def by blast
  then show ?thesis using ba len nyq by (simp add: bandpass_filter_def Let_def)
qed

lemma preprocess_lengths:
  assumes "preprocess L df fs resolution_bits = Inr df'"
  shows "length (emg_processed df') = len_df df \<and> length (emg_rectified df') = len_df df
         \<and> len_df df' = len_df df"
  using assms
  by (auto simp: preprocess_def column_of_def len_df_def Let_def split: sum.splits if_splits)

lemma preprocess_short:
  assumes "butter_designs L" and "filtfilt_pads L" and "900 < fs"
    and "as_int resolution_bits \<noteq> None" and "len_df df \<le> 33"
  shows "preprocess L df fs resolution_bits
           = Inl (ValueError (InputShorterThanPadlen (if len_df df \<le> 15 then 15 else 33)))"
proof -
  obtain n where n: "as_int resolution_bits = Some n" using assms(4) by blast
  let ?mv = "map (\<lambda>r. ((r / (2 powi n)) - 0.5) * 3.3 * 1000 / 1000) (emg_raw df)"
  let ?c = "map (\<lambda>x. x - mean ?mv) ?mv"
  have cv: "convert_to_mv_default (emg_raw df) resolution_bits = Inr ?mv"
    using n by (simp add: convert_to_mv_default_def convert_to_mv_def)
  have lc: "length ?c = len_df df" by (simp add: len_df_def)
  have fs: "102 < fs" using assms(3) by simp
  show ?thesis
  proof (cases "len_df df \<le> 15")
    case True
    then have "notch_filter L ?c 50 fs 2 = Inl (ValueError (InputShorterThanPadlen 15))"
      using notch_short [OF assms(1,2) fs, of ?c] lc by simp
    then show ?thesis using True cv by (simp add: preprocess_def Let_def)
  next
    case False
    then have "15 < length ?c" using lc by simp
    then obtain y where y: "notch_filter L ?c 50 fs 2 = Inr y" and ly: "length y = length ?c"
      using notch_long [OF assms(1,2) fs, of ?c] by blast
    have col: "column_of df y = Inr y" using ly lc by (simp add: column_of_def)
    have "length y \<le> 33" using ly lc assms(5) by simp
    then have "bandpass_filter L y 20 450 fs 5 = Inl (ValueError (InputShorterThanPadlen 33))"
      by (rule bandpass_short [OF assms(1,2,3)])
    then show ?thesis using False cv y col by (simp add: preprocess_def Let_def)
  qed
qed

lemma sample_butter_designs: "butter_designs sample_libs"
  by (simp add: butter_designs_def sample_libs_def)

lemma sample_filtfilt_pads: "filtfilt_pads sample_libs"
  by (simp add: filtfilt_pads_def sample_libs_def)

lemma notch_invalid:
  assumes "butter_rejects L" and "fs \<le> 102"
  shows "\<exists>e. notch_filter L signal 50 fs 2 = Inl e"
    and "fs \<noteq> 0 \<Longrightarrow> notch_filter L signal 50 fs 2 = Inl (ValueError CriticalFrequencies)"
proof -
  let ?nyq = "real_of_int fs / 2"
  have rej: "notch_filter L signal 50 fs 2 = Inl (ValueError CriticalFrequencies)" if nz: "fs \<noteq> 0"
  proof -
    have "(50 - 1) / ?nyq \<le> 0 \<or> 1 \<le> (50 + 1) / ?nyq"
    proof (cases "0 < fs")
      case True
      then have "0 < ?nyq" "?nyq \<le> 51" using assms(2) by simp_all
      then have "1 \<le> (50 + 1) / ?nyq" by (simp add: le_divide_eq)
      then show ?thesis by blast
    next
      case False
      then have "?nyq < 0" using nz by simp
      then have "(50 - 1) / ?nyq \<le> 0" by (simp add: divide_le_0_iff)
      then show ?thesis by blast
    qed
    then have "butter L 2 ((50 - 1) / ?nyq) ((50 + 1) / ?nyq) Bandstop
                 = Inl (ValueError CriticalFrequencies)"
      using assms(1) unfolding butter_rejects_def by blast
    then show ?thesis using nz by (simp add: notch_filter_def Let_def)
  qed
  then show "fs \<noteq> 0 \<Longrightarrow> notch_filter L signal 50 fs 2 = Inl (ValueError CriticalFrequencies)" .
  show "\<exists>e. notch_filter L signal 50 fs 2 = Inl e"
  proof (cases "fs = 0")
    case True
    then show ?thesis by (simp add: notch_filter_def)
  next
    case False
    then show ?thesis using rej by blast
  qed
qed

lemma bandpass_low_rate:
  assumes "butter_rejects L" and "0 < fs" and "fs \<le> 900"
  shows "1 \<le> 450 / (real_of_int fs / 2)"
    and "bandpass_filter L signal 20 450 fs 5 = Inl (ValueError CriticalFrequencies)"
proof -
  let ?nyq = "real_of_int fs / 2"
  have pos: "0 < ?nyq" using assms(2) by simp
  have "?nyq \<le> 450" using assms(3) by simp
  then show high: "1 \<le> 450 / ?nyq" using pos by (simp add: le_divide_eq)
  then have "butter L 5 (20 / ?nyq) (450 / ?nyq) Bandpass = Inl (ValueError CriticalFrequencies)"
    using assms(1) unfolding butter_rejects_def by blast
  then show "bandpass_filter L signal 20 450 fs 5 = Inl (ValueError CriticalFrequencies)"
    using pos by (simp add: bandpass_filter_def Let_def)
qed

lemma preprocess_low_rate:
  assumes "butter_rejects L" and "0 < fs" and "fs \<le> 900"
  shows "\<exists>e. preprocess L df fs resolution_bits = Inl e"
  using bandpass_low_rate(2) [OF assms]
  by (auto simp: preprocess_def Let_def split: sum.splits)

lemma process_body_low_rate:
  assumes "butter_rejects L" and "0 < fs" and "fs \<le> 900" and "h_fs h = JInt fs"
  shows "\<exists>e. process_body L string_data h baseline_duration_sec = Inl e"
proof -
  have wp: "window_params (h_fs h) = Inr (fs, fs div 4, fs div 8)"
    using assms(2,4) by (simp add: window_params_def Let_def)
  show ?thesis
  proof (cases "load_data L string_data (h_emg_column_index h) fs")
    case (Inl e)
    then show ?thesis using wp by (simp add: process_body_def)
  next
    case (Inr df0)
    obtain e where "preprocess L df0 fs (h_resolution_bits h) = Inl e"
      using preprocess_low_rate [OF assms(1-3)] by blast
    then show ?thesis using wp Inr by (simp add: process_body_def)
  qed
qed

lemma preprocess_notch_error:
  assumes "as_int resolution_bits \<noteq> None"
    and "\<And>signal. length signal = len_df df \<Longrightarrow> notch_filter L signal 50 fs 2 = Inl e"
  shows "preprocess L df fs resolution_bits = Inl e"
proof -
  obtain n where n: "as_int resolution_bits = Some n" using assms(1) by blast
  let ?mv = "map (\<lambda>r. ((r / (2 powi n)) - 0.5) * 3.3 * 1000 / 1000) (emg_raw df)"
  let ?c = "map (\<lambda>x. x - mean ?mv) ?mv"
  have cv: "convert_to_mv_default (emg_raw df) resolution_bits = Inr ?mv"
    using n by (simp add: convert_to_mv_default_def convert_to_mv_def)
  have "notch_filter L ?c 50 fs 2 = Inl e" by (rule assms(2)) (simp add: len_df_def)
  then show ?thesis using cv by (simp add: preprocess_def Let_def)
qed

lemma preprocess_critical:
  assumes "butter_rejects L" and "butter_designs L" and "filtfilt_pads L"
    and "as_int resolution_bits \<noteq> None" and "0 < fs" and "fs \<le> 900"
    and "fs \<le> 102 \<or> 15 < len_df df"
  shows "preprocess L df fs resolution_bits = Inl (ValueError CriticalFrequencies)"
proof (cases "fs \<le> 102")
  case True
  have "notch_filter L signal 50 fs 2 = Inl (ValueError CriticalFrequencies)" for signal
    using notch_invalid(2) [OF assms(1) True] assms(5) by simp
  then show ?thesis using preprocess_notch_error [OF assms(4)] by blast
next
  case False
  then have fs: "102 < fs" and long: "15 < len_df df" using assms(7) by simp_all
  obtain n where n: "as_int resolution_bits = Some n" using assms(4) by blast
  let ?mv = "map (\<lambda>r. ((r / (2 powi n)) - 0.5) * 3.3 * 1000 / 1000) (emg_raw df)"
  let ?c = "map (\<lambda>x. x - mean ?mv) ?mv"
  have cv: "convert_to_mv_default (emg_raw df) resolution_bits = Inr ?mv"
    using n by (simp add: convert_to_mv_default_def convert_to_mv_def)
  have lc: "length ?c = len_df df" by (simp add: len_df_def)
  then have "15 < length ?c" using long by simp
  then obtain y where y: "notch_filter L ?c 50 fs 2 = Inr y" and ly: "length y = length ?c"
    using notch_long [OF assms(2,3) fs, of ?c] by blast
  have col: "column_of df y = Inr y" using ly lc by (simp add: column_of_def)
  have "bandpass_filter L y 20 450 fs 5 = Inl (ValueError CriticalFrequencies)"
    by (rule bandpass_low_rate(2) [OF assms(1,5,6)])
  then show ?thesis using cv y col by (simp add: preprocess_def Let_def)
qed

lemma preprocess_short_notch:
  assumes "butter_designs L" and "filtfilt_pads L" and "102 < fs"
    and "as_int resolution_bits \<noteq> None" and "len_df df \<le> 15"
  shows "preprocess L df fs resolution_bits = Inl (ValueError (InputShorterThanPadlen 15))"
proof -
  have "notch_filter L signal 50 fs 2 = Inl (ValueError (InputShorterThanPadlen 15))"
    if "length signal = len_df df" for signal
    using notch_short [OF assms(1,2,3), of signal] that assms(5) by simp
  then show ?thesis using preprocess_notch_error [OF assms(4)] by blast
qed

lemma preprocess_nonpositive_rate:
  assumes "butter_rejects L" and "fs \<le> 0"
  shows "\<exists>e. preprocess L df fs resolution_bits = Inl e"
proof (cases "as_int resolution_bits")
  case None
  then show ?thesis
    by (simp add: preprocess_def convert_to_mv_default_def convert_to_mv_def)
next
  case (Some n)
  have le: "fs \<le> 102" using assms(2) by simp
  let ?mv = "map (\<lambda>r. ((r / (2 powi n)) - 0.5) * 3.3 * 1000 / 1000) (emg_raw df)"
  let ?c = "map (\<lambda>x. x - mean ?mv) ?mv"
  have cv: "convert_to_mv_default (emg_raw df) resolution_bits = Inr ?mv"
    using Some by (simp add: convert_to_mv_default_def convert_to_mv_def)
  obtain e where "notch_filter L ?c 50 fs 2 = Inl e"
    using notch_invalid(1) [OF assms(1) le] by blast
  then show ?thesis using cv by (simp add: preprocess_def Let_def)
qed

lemma preprocess_returns:
  assumes "butter_rejects L" and "butter_designs L" and "filtfilt_pads L"
    and "preprocess L df fs resolution_bits = Inr df'"
  shows "900 < fs \<and> 33 < len_df df"
proof -
  have bits: "as_int resolution_bits \<noteq> None"
    using assms(4)
    by (auto simp: preprocess_def convert_to_mv_default_def convert_to_mv_def
          split: option.splits)
  have pos: "0 < fs"
    using preprocess_nonpositive_rate [OF assms(1), of fs df resolution_bits] assms(4)
    by fastforce
  have high: "900 < fs"
    using preprocess_low_rate [OF assms(1) pos, of df resolution_bits] assms(4)
    by fastforce
  have "\<not> len_df df \<le> 33"
    using preprocess_short [OF assms(2,3) high bits, of df] assms(4) by auto
  then show ?thesis using high by simp
qed

lemma preprocess_short_fails:
  assumes "butter_rejects L" and "butter_designs L" and "filtfilt_pads L"
    and "len_df df \<le> 33"
  shows "\<exists>e. preprocess L df fs resolution_bits = Inl e"
proof (cases "preprocess L df fs resolution_bits")
  case (Inl e)
  then show ?thesis by blast
next
  case (Inr df')
  then show ?thesis using preprocess_returns [OF assms(1,2,3) Inr] assms(4) by simp
qed

lemma sample_butter_rejects: "butter_rejects sample_libs"
  by (auto simp: butter_rejects_def sample_libs_def)

lemma sample_file_500_header:
  "extract_header sample_libs sample_file_500
     = ([], Some \<lparr>h_fs = JInt 500, h_resolution_bits = JInt 10, h_emg_column_index = 1\<rparr>)"
proof -
  have l: "splitlines sample_file_500
     = [''# OpenSignals Text File Format'', ''# '' @ sample_header_text_500, ''# EndOfHeader'',
        ''0 512'']"
    by (simp add: splitlines_def sample_file_500_def sample_header_text_500_def is_linebreak_def)
  have j: "json_loads sample_libs (strip (drop 1 (''# '' @ sample_header_text_500)))
     = Some sample_json_500"
    by (simp add: sample_libs_def strip_def sample_header_text_500_def sample_header_text_def
          is_space_def)
  have r: "read_info [(''sampling rate'', JInt 500),
                           (''column'', JList [JStr ''nSeq'', JStr ''A1'']),
                           (''resolution'', JList [JInt 4, JInt 10])]
         = ([], Some \<lparr>h_fs = JInt 500, h_resolution_bits = JInt 10, h_emg_column_index = 1\<rparr>)"
    by (simp add: read_info_def dict_get_def default_header_def Let_def)
  show ?thesis
    unfolding extract_header_def l using j r
    by (simp add: startswith_def sample_json_500_def)
qed

subsection \<open>The values returned by \<open>process_emg_file\<close> are well-formed\<close>

lemma extract_features_lengths:
  assumes "extract_features L df fs win_size step = Inr (t_vals, rms_vals, mnf_vals)"
  shows "length rms_vals = length t_vals \<and> length mnf_vals = length t_vals"
proof -
  obtain starts where "feature_loop L df fs win_size starts = Inr (t_vals, rms_vals, mnf_vals)"
    using assms by (auto simp: extract_features_def split: sum.splits)
  from feature_loop_lengths [OF this] show ?thesis by simp
qed

lemma trend_stage_shape:
  assumes "trend_stage L t_vals rms_vals mnf_vals = (slope_rms, p_value_rms, slope_mnf, p_value_mnf)"
  shows "(p_value_rms = None) = (slope_rms = None) \<and> (slope_mnf = None) = (slope_rms = None)
         \<and> (p_value_mnf = None) = (slope_rms = None)"
  using assms by (auto simp: trend_stage_def split: if_splits prod.splits)

lemma process_body_wf:
  assumes "process_body L string_data h baseline_duration_sec = Inr (out, ds)"
  shows "wf_outputs out"
proof -
  from assms obtain fs win_size step df t_vals rms_vals mnf_vals rb mb sr pr sm pm
    where ef: "extract_features L df fs win_size step = Inr (t_vals, rms_vals, mnf_vals)"
      and ts: "trend_stage L t_vals rms_vals mnf_vals = (sr, pr, sm, pm)"
      and out: "out = \<lparr>out_df = df, out_t_vals = t_vals, out_rms_vals = rms_vals,
                out_mnf_vals = mnf_vals, out_rms_baseline = rb,
                out_mnf_baseline = mb, out_slope_rms = sr,
                out_p_value_rms = pr, out_slope_mnf = sm,
                out_p_value_mnf = pm\<rparr>"
    by (auto simp: process_body_def split: sum.splits prod.splits)
  show ?thesis
    using extract_features_lengths [OF ef] trend_stage_shape [OF ts] out
    by (simp add: wf_outputs_def)
qed




subsection \<open>A run on a recording of one window of zeros\<close>

lemma splitlines_acc_line:
  assumes "\<forall>c \<in> set l. \<not> is_linebreak c"
  shows "splitlines_acc cur (l @ CHR 0x0A # rest) = (rev cur @ l) # splitlines_acc [] rest"
  using assms
proof (induction l arbitrary: cur)
  case Nil
  then show ?case by (simp add: is_linebreak_def)
next
  case (Cons c l)
  then show ?case by simp
qed

lemma sample_recording_header:
  "extract_header sample_libs sample_recording
     = ([], Some \<lparr>h_fs = JInt 1000, h_resolution_bits = JInt 10, h_emg_column_index = 1\<rparr>)"
proof -
  let ?l0 = "''# OpenSignals Text File Format''"
  let ?l1 = "''# '' @ sample_header_text_1000"
  let ?rest = "''# EndOfHeader'' @ [CHR 0x0A] @ sample_rows"
  have eq: "sample_recording = ?l0 @ CHR 0x0A # (?l1 @ CHR 0x0A # ?rest)"
    by (simp add: sample_recording_def)
  have a: "splitlines_acc [] (?l0 @ CHR 0x0A # (?l1 @ CHR 0x0A # ?rest))
             = (rev [] @ ?l0) # splitlines_acc [] (?l1 @ CHR 0x0A # ?rest)"
    by (rule splitlines_acc_line) (simp add: is_linebreak_def)
  have b: "splitlines_acc [] (?l1 @ CHR 0x0A # ?rest) = (rev [] @ ?l1) # splitlines_acc [] ?rest"
    by (rule splitlines_acc_line) (simp add: is_linebreak_def sample_header_text_1000_def)
  have l: "splitlines sample_recording = ?l0 # ?l1 # splitlines_acc [] ?rest"
    unfolding splitlines_def eq a b by simp
  have j: "json_loads sample_libs (strip (drop 1 ?l1)) = Some sample_json_1000"
    by (simp add: sample_libs_def strip_def sample_header_text_1000_def
          sample_header_text_500_def sample_header_text_def is_space_def)
  have r: "read_info [(''sampling rate'', JInt 1000),
                           (''column'', JList [JStr ''nSeq'', JStr ''A1'']),
                           (''resolution'', JList [JInt 4, JInt 10])]
         = ([], Some \<lparr>h_fs = JInt 1000, h_resolution_bits = JInt 10, h_emg_column_index = 1\<rparr>)"
    by (simp add: read_info_def dict_get_def default_header_def Let_def)
  show ?thesis
    unfolding extract_header_def l using j r
    by (simp add: startswith_def sample_json_1000_def)
qed

lemma sample_window_zero:
  "window_features sample_libs (sample_df 250 1000 0) 1000 250 0 = Inr (1 / 8, 0, 0)"
  by (simp add: window_features_def py_index_def py_slice_def slice_bound_def sample_df_def
        sample_libs_def mean_def mean_frequency_def sum_list_replicate Let_def)

lemma sample_recording_body:
  "process_body sample_libs sample_recording
       \<lparr>h_fs = JInt 1000, h_resolution_bits = JInt 10, h_emg_column_index = 1\<rparr> 5
     = Inr (\<lparr>out_df = sample_df 250 1000 0,
             out_t_vals = [1 / 8], out_rms_vals = [0], out_mnf_vals = [0],
             out_rms_baseline = Fin 0, out_mnf_baseline = Fin 0,
             out_slope_rms = None, out_p_value_rms = None,
             out_slope_mnf = None, out_p_value_mnf = None\<rparr>, [])"
proof -
  let ?df0 = "\<lparr>nSeq = replicate 250 0, emg_raw = replicate 250 512,
                   time = map (\<lambda>k. real k / 1000) [0..<250],
                   emg_mv = [], emg_processed = [], emg_rectified = []\<rparr>"
  have wp: "window_params (JInt 1000) = Inr (1000, 250, 125)"
    by (simp add: window_params_def)
  have ld: "load_data sample_libs sample_recording 1 1000 = Inr ?df0"
    by (simp add: load_data_def sample_libs_def)
  have pp: "preprocess sample_libs ?df0 1000 (JInt 10) = Inr (sample_df 250 1000 0)"
    by (simp add: preprocess_def sample_libs_def convert_to_mv_default_def convert_to_mv_def
          notch_filter_def bandpass_filter_def column_of_def len_df_def mean_def
          sample_df_def Let_def sum_list_replicate)
  have ws: "window_starts 250 250 125 = Inr [0]"
    by (simp add: window_starts_def py_range_def range_up.simps)
  have ef: "extract_features sample_libs (sample_df 250 1000 0) 1000 250 125
              = Inr ([1 / 8], [0], [0])"
    using ws sample_window_zero by (simp add: extract_features_def len_df_def sample_df_def)
  have bw: "baseline_windows 5 125 1000 (length [0 :: real]) = Inr 1"
    using baseline_windows_nonneg(1) [of 5 125 1000 "length [0 :: real]"]
    by (simp add: baseline_count_default)
  have bs: "baseline_stage 5 125 1000 [0] [0] = Inr (Fin 0, Fin 0, [])"
    unfolding baseline_stage_def bw
    by (simp add: py_slice_def slice_bound_def np_mean_def mean_def)
  have ts: "trend_stage sample_libs [1 / 8] [0] [0] = (None, None, None, None)"
    by (simp add: trend_stage_def)
  show ?thesis
    unfolding process_body_def by (simp add: wp ld pp ef bs ts)
qed

section \<open>Theorems\<close>

subsection \<open>C1: the feature windows\<close>



subsection \<open>C2: calibration\<close>

text \<open>
  C2. For every raw ADC count, calibration returns
  \<open>value_mv = ((raw_count / 2^resolution_bits) - 0.5) * vcc * 1000 / gain\<close>, elementwise
  (one output per input, each depending on its own input only) and without state, with
  defaults \<open>vcc = 3.3\<close> and \<open>gain = 1000\<close>; the mid-scale count 512 at 10 bits maps to a
  value within \<open>1e-9\<close> of 0.
\<close>

theorem convert_to_mv_calibration:
  "convert_to_mv raw (JInt (int bits)) vcc gain
     = Inr (map (\<lambda>r. calibration_spec r bits vcc gain) raw)
   \<and> convert_to_mv_default raw (JInt (int bits))
     = Inr (map (\<lambda>r. calibration_spec r bits 3.3 1000) raw)
   \<and> convert_to_mv_default [512] (JInt 10) = Inr [calibration_spec 512 10 3.3 1000]
   \<and> \<bar>calibration_spec 512 10 3.3 1000\<bar> \<le> 1 / 10 ^ 9"
  by (simp add: convert_to_mv_def convert_to_mv_default_def calibration_spec_def)

theorem convert_to_mv_calibration_witness:
  "convert_to_mv_default [0, 512, 1023] (JInt 10)
     = Inr [- 33 / 20, 0, 33 * 511 / 10240]"
  using convert_to_mv_calibration [of "[0, 512, 1023]" 10 "3.3" 1000]
  by (simp add: calibration_spec_def)

subsection \<open>C3: the baseline\<close>

text \<open>
  C3 as stated: the baseline is the mean over the first \<open>num_windows\<close> entries, a strict
  prefix of the feature sequence. The count is
  \<open>min(floor(baseline_duration_sec / (step/fs)), total_windows)\<close>, so a recording with no
  more windows than the duration covers gives the whole sequence: at the default
  duration of 5 s (40 windows at \<open>step = 125\<close>, \<open>fs = 1000\<close>) a sequence of three windows
  is averaged in full. The prefix is then not a strict one.
\<close>

theorem baseline_whole_sequence_counterexample:
  "baseline_windows 5 125 1000 (length [1, 2, 3 :: real]) = Inr 3
   \<and> baseline_stage 5 125 1000 [1, 2, 3] [4, 5, 6] = Inr (Fin 2, Fin 5, [])
   \<and> take 3 [1, 2, 3 :: real] = [1, 2, 3]"
proof -
  have w: "baseline_windows 5 125 1000 (length [1, 2, 3 :: real]) = Inr 3"
    using baseline_windows_nonneg(1) [of 5 125 1000 "length [1, 2, 3 :: real]"]
    by (simp add: baseline_count_default)
  have "baseline_stage 5 125 1000 [1, 2, 3] [4, 5, 6] = Inr (Fin 2, Fin 5, [])"
    unfolding baseline_stage_def w
    by (simp add: py_slice_def slice_bound_def np_mean_def mean_def)
  then show ?thesis using w by simp
qed

text \<open>
  C3, amended. For every feature sequence of length \<open>total_windows\<close> and every
  \<open>baseline_duration_sec\<close> (a duration: not negative; the stride and the sampling rate
  are positive), the baseline window count is
  \<open>num_windows = min(floor(baseline_duration_sec / (step/fs)), total_windows)\<close>, with the
  quotients computed on doubles as line 111 does; if it is 0 the baseline is \<open>{0, 0}\<close>
  and the diagnostic is emitted, otherwise the baseline is the arithmetic mean of the
  RMS values and of the MNF values over exactly the first \<open>num_windows\<close> entries: a
  prefix (the whole sequence when \<open>total_windows\<close> is not larger than the floor), to
  which no entry at an index \<open>\<ge> num_windows\<close> contributes: changing those entries does
  not change the result.
\<close>

theorem baseline_prefix_mean:
  assumes "0 \<le> baseline_duration_sec" and "0 < step" and "0 < fs"
    and "length mnf_vals = length rms_vals"
  shows "\<exists>num_windows.
           baseline_windows baseline_duration_sec step fs (length rms_vals) = Inr (int num_windows)
         \<and> int num_windows = baseline_count_spec baseline_duration_sec step fs (length rms_vals)
         \<and> num_windows \<le> length rms_vals
         \<and> baseline_stage baseline_duration_sec step fs rms_vals mnf_vals
             = (if num_windows = 0 then Inr (Fin 0, Fin 0, [Warn_baseline_insufficient])
                else Inr (Fin (sum_list (take num_windows rms_vals) / real num_windows),
                          Fin (sum_list (take num_windows mnf_vals) / real num_windows), []))
         \<and> (\<forall>rms_vals' mnf_vals'.
               length rms_vals' = length rms_vals \<and> length mnf_vals' = length rms_vals
               \<and> take num_windows rms_vals' = take num_windows rms_vals
               \<and> take num_windows mnf_vals' = take num_windows mnf_vals
               \<longrightarrow> baseline_stage baseline_duration_sec step fs rms_vals' mnf_vals'
                     = baseline_stage baseline_duration_sec step fs rms_vals mnf_vals)"
proof -
  let ?c = "baseline_count_spec baseline_duration_sec step fs (length rms_vals)"
  let ?k = "nat ?c"
  note bw = baseline_windows_nonneg [OF assms(1-3), of "length rms_vals"]
  have k: "int ?k = ?c" using bw(2) by simp
  have kl: "?k \<le> length rms_vals" using bw(3) by linarith
  have stage: "baseline_stage baseline_duration_sec step fs rs ms
             = (if ?k = 0 then Inr (Fin 0, Fin 0, [Warn_baseline_insufficient])
                else Inr (Fin (sum_list (take ?k rs) / real ?k),
                          Fin (sum_list (take ?k ms) / real ?k), []))"
    if "length rs = length rms_vals" and "length ms = length rms_vals" for rs ms
  proof (cases "?k = 0")
    case True
    then have "?c = 0" using bw(2) by linarith
    then show ?thesis using True bw(1) that by (simp add: baseline_stage_def)
  next
    case False
    then have pos: "0 < ?k" by simp
    have ne: "?c \<noteq> 0" using False by linarith
    have "np_mean (py_slice rs 0 ?c) = Fin (sum_list (take ?k rs) / real ?k)"
      using np_mean_take [OF pos, of rs] kl that(1) bw(2) by (simp add: py_slice_prefix)
    moreover have "np_mean (py_slice ms 0 ?c) = Fin (sum_list (take ?k ms) / real ?k)"
      using np_mean_take [OF pos, of ms] kl that(2) bw(2) by (simp add: py_slice_prefix)
    ultimately show ?thesis using False ne bw(1) that(1)
      by (simp add: baseline_stage_def)
  qed
  have "baseline_windows baseline_duration_sec step fs (length rms_vals) = Inr (int ?k)"
    using bw(1) k by simp
  moreover have "\<forall>rms_vals' mnf_vals'.
               length rms_vals' = length rms_vals \<and> length mnf_vals' = length rms_vals
               \<and> take ?k rms_vals' = take ?k rms_vals
               \<and> take ?k mnf_vals' = take ?k mnf_vals
               \<longrightarrow> baseline_stage baseline_duration_sec step fs rms_vals' mnf_vals'
                     = baseline_stage baseline_duration_sec step fs rms_vals mnf_vals"
    using stage assms(4) by simp
  ultimately show ?thesis using k kl stage [OF refl assms(4)] by blast
qed

theorem baseline_prefix_mean_witness:
  "baseline_stage 5 125 1000 (replicate 40 1 @ [100]) (replicate 40 60 @ [7])
     = Inr (Fin 1, Fin 60, [])
   \<and> baseline_stage 5 125 1000 (replicate 40 1 @ [5]) (replicate 40 60 @ [9])
     = baseline_stage 5 125 1000 (replicate 40 1 @ [100]) (replicate 40 60 @ [7])
   \<and> baseline_stage 5 125 1000 [] [] = Inr (Fin 0, Fin 0, [Warn_baseline_insufficient])
   \<and> baseline_windows (7311038356120935 / 4503599627370496) 125 1001 20 = Inr 13"
proof -
  let ?rs = "replicate 40 1 @ [100 :: real]" and ?ms = "replicate 40 60 @ [7 :: real]"
  let ?rs' = "replicate 40 1 @ [5 :: real]" and ?ms' = "replicate 40 60 @ [9 :: real]"
  have c: "baseline_count_spec 5 125 1000 (length ?rs) = 40"
    by (simp add: baseline_count_default)
  have h: "(0 :: real) \<le> 5" "(0 :: int) < 125" "(0 :: int) < 1000" "length ?ms = length ?rs"
    by simp_all
  from baseline_prefix_mean [OF h]
  obtain n where n: "int n = baseline_count_spec 5 125 1000 (length ?rs)"
    and st: "baseline_stage 5 125 1000 ?rs ?ms
             = (if n = 0 then Inr (Fin 0, Fin 0, [Warn_baseline_insufficient])
                else Inr (Fin (sum_list (take n ?rs) / real n),
                          Fin (sum_list (take n ?ms) / real n), []))"
    and pre: "\<forall>rms_vals' mnf_vals'.
               length rms_vals' = length ?rs \<and> length mnf_vals' = length ?rs
               \<and> take n rms_vals' = take n ?rs
               \<and> take n mnf_vals' = take n ?ms
               \<longrightarrow> baseline_stage 5 125 1000 rms_vals' mnf_vals'
                     = baseline_stage 5 125 1000 ?rs ?ms"
    by blast
  have n40: "n = 40" using n c by linarith
  have a: "baseline_stage 5 125 1000 ?rs ?ms = Inr (Fin 1, Fin 60, [])"
    using st unfolding n40 by (simp add: sum_list_replicate)
  have "length ?rs' = length ?rs \<and> length ?ms' = length ?rs
        \<and> take n ?rs' = take n ?rs \<and> take n ?ms' = take n ?ms"
    unfolding n40 by simp
  then have b: "baseline_stage 5 125 1000 ?rs' ?ms' = baseline_stage 5 125 1000 ?rs ?ms"
    using pre by blast
  have h0: "length ([] :: real list) = length ([] :: real list)" by simp
  from baseline_prefix_mean [OF h(1) h(2) h(3) h0]
  obtain m where m: "m \<le> length ([] :: real list)"
    and st0: "baseline_stage 5 125 1000 [] []
             = (if m = 0 then Inr (Fin 0, Fin 0, [Warn_baseline_insufficient])
                else Inr (Fin (sum_list (take m []) / real m),
                          Fin (sum_list (take m []) / real m), []))"
    by blast
  have z: "baseline_stage 5 125 1000 [] [] = Inr (Fin 0, Fin 0, [Warn_baseline_insufficient])"
    using m st0 by simp
  let ?d = "7311038356120935 / 4503599627370496 :: real"
  have s: "fl (125 / 1001) = 8998201053687305 / 72057594037927936"
    by (subst fl_eval [where e = "- 4"])
       (simp_all add: round_half_even_def power_int_minus Let_def)
  have q: "fl (?d / (8998201053687305 / 72057594037927936)) = 13"
    by (subst fl_eval [where e = 3])
       (simp_all add: round_half_even_def power_int_minus Let_def)
  have hd: "(0 :: real) \<le> ?d" "(0 :: int) < 1001" by simp_all
  have "baseline_windows ?d 125 1001 20 = Inr (baseline_count_spec ?d 125 1001 20)"
    by (rule baseline_windows_nonneg(1) [OF hd(1) h(2) hd(2)])
  moreover have "baseline_count_spec ?d 125 1001 20 = min \<lfloor>13 :: real\<rfloor> (int 20)"
    by (simp only: baseline_count_spec_def double_div_def of_int_numeral s q)
  then have "baseline_count_spec ?d 125 1001 20 = 13" by simp
  ultimately have r7: "baseline_windows ?d 125 1001 20 = Inr 13" by simp
  show ?thesis using a b z r7 by simp
qed

subsection \<open>C4: the percentage-change rule\<close>

text \<open>
  C4. The percentage-change rule is evaluated only when both baseline components are
  non-zero and at least one feature window exists (otherwise the analysis shows
  nothing). It computes \<open>rms_change% = (final_rms - baseline_rms)/baseline_rms * 100\<close>
  (and the same for MNF) from the final window, in the double arithmetic of lines
  215-216, sets fatigue-by-MNF iff \<open>mnf_change% \<le> threshold_mnf\<close> and fatigue-by-RMS iff
  \<open>rms_change% \<le> threshold_rms\<close>, and gives the four-way verdict: both, MNF only, RMS
  only, neither. With \<open>baseline_rms = 1.0\<close>, \<open>final_rms = 0.85\<close>, \<open>baseline_mnf = 100\<close>,
  \<open>final_mnf = 95\<close> and thresholds of \<open>-10\<close> the verdict is RMS only ("needs
  confirmation").
\<close>

theorem percentage_change_rule:
  assumes "wf_outputs r"
  shows "(out_t_vals r = [] \<or> out_rms_baseline r = Fin 0 \<or> out_mnf_baseline r = Fin 0
            \<longrightarrow> fatigue_analysis r sl = Inr [])
       \<and> (out_t_vals r \<noteq> [] \<and> out_rms_baseline r = Fin baseline_rms \<and> baseline_rms \<noteq> 0
            \<and> out_mnf_baseline r = Fin baseline_mnf \<and> baseline_mnf \<noteq> 0
            \<longrightarrow> (let final_rms = last (out_rms_vals r);
                      final_mnf = last (out_mnf_vals r);
                      rms_change =
                        double_mul (double_div (double_sub final_rms baseline_rms)
                                      baseline_rms) 100;
                      mnf_change =
                        double_mul (double_div (double_sub final_mnf baseline_mnf)
                                      baseline_mnf) 100;
                      by_mnf = (mnf_change \<le> threshold_mnf sl);
                      by_rms = (rms_change \<le> threshold_rms sl)
                  in \<exists>rest. fatigue_analysis r sl
                        = Inr (Ui_change (Fin rms_change) (Fin mnf_change)
                               # Ui_status (status_percentage by_mnf by_rms) # rest)))
       \<and> (status_percentage by_mnf by_rms = Fatigue_mnf_and_rms) = (by_mnf \<and> by_rms)
       \<and> (status_percentage by_mnf by_rms = Fatigue_mnf) = (by_mnf \<and> \<not> by_rms)
       \<and> (status_percentage by_mnf by_rms = Fatigue_rms_unconfirmed) = (\<not> by_mnf \<and> by_rms)
       \<and> (status_percentage by_mnf by_rms = No_fatigue) = (\<not> by_mnf \<and> \<not> by_rms)
       \<and> status_percentage
            (double_mul (double_div (double_sub 95 100) 100) 100 \<le> - 10)
            (double_mul (double_div (double_sub (fl (85 / 100)) 1) 1) 100 \<le> - 10)
           = Fatigue_rms_unconfirmed"
proof -
  have closed: "out_t_vals r = [] \<or> out_rms_baseline r = Fin 0 \<or> out_mnf_baseline r = Fin 0
            \<longrightarrow> fatigue_analysis r sl = Inr []"
    using fatigue_analysis_gate_closed by blast
  have "open": "let final_rms = last (out_rms_vals r);
                      final_mnf = last (out_mnf_vals r);
                      rms_change =
                        double_mul (double_div (double_sub final_rms baseline_rms)
                                      baseline_rms) 100;
                      mnf_change =
                        double_mul (double_div (double_sub final_mnf baseline_mnf)
                                      baseline_mnf) 100;
                      by_mnf = (mnf_change \<le> threshold_mnf sl);
                      by_rms = (rms_change \<le> threshold_rms sl)
                  in \<exists>rest. fatigue_analysis r sl
                        = Inr (Ui_change (Fin rms_change) (Fin mnf_change)
                               # Ui_status (status_percentage by_mnf by_rms) # rest)"
    if g: "out_t_vals r \<noteq> []" "out_rms_baseline r = Fin baseline_rms" "baseline_rms \<noteq> 0"
          "out_mnf_baseline r = Fin baseline_mnf" "baseline_mnf \<noteq> 0"
  proof -
    obtain evs where evs: "trend_report (out_slope_rms r) (out_p_value_rms r) (out_slope_mnf r)
           (out_p_value_mnf r) (significance_alpha sl) = Inr evs"
      using trend_report_total [OF assms] by blast
    have "out_rms_baseline r \<noteq> Fin 0" "out_mnf_baseline r \<noteq> Fin 0" using g by simp_all
    from fatigue_analysis_gate_open [OF assms g(1) this evs]
    show ?thesis using g by (simp add: change_percent_def np_le_def Let_def)
  qed
  have ex: "status_percentage
            (double_mul (double_div (double_sub 95 100) 100) 100 \<le> - 10)
            (double_mul (double_div (double_sub (fl (85 / 100)) 1) 1) 100 \<le> - 10)
           = Fatigue_rms_unconfirmed"
    by (simp add: status_percentage_def change_example_mnf change_example_rms_17)
  show ?thesis using closed "open" ex status_percentage_cases [of by_mnf by_rms] by blast
qed

theorem percentage_change_rule_witness:
  "(\<exists>rest. fatigue_analysis (sample_outputs None None None None) default_sliders
      = Inr (Ui_change (Fin (- 8444249301319681 / 562949953421312)) (Fin (- 5))
             # Ui_status Fatigue_rms_unconfirmed # rest))
   \<and> double_mul (double_div (double_sub 71 100) 100) 100
       = - 8162774324609023 / 281474976710656
   \<and> status_percentage
        (double_mul (double_div (double_sub 71 100) 100) 100 \<le> - 29)
        (double_mul (double_div (double_sub 71 100) 100) 100 \<le> - 29)
       = No_fatigue"
proof -
  let ?r = "sample_outputs None None None None"
  have wf: "wf_outputs ?r" by (simp add: wf_outputs_def sample_outputs_def)
  have g: "out_t_vals ?r \<noteq> [] \<and> out_rms_baseline ?r = Fin 1 \<and> (1 :: real) \<noteq> 0
            \<and> out_mnf_baseline ?r = Fin 100 \<and> (100 :: real) \<noteq> 0"
    by (simp add: sample_outputs_def)
  note t = percentage_change_rule [OF wf, of default_sliders 1 100
             "double_mul (double_div (double_sub 71 100) 100) 100 \<le> - 29"
             "double_mul (double_div (double_sub 71 100) 100) 100 \<le> - 29"]
  have a: "\<exists>rest. fatigue_analysis ?r default_sliders
      = Inr (Ui_change (Fin (- 8444249301319681 / 562949953421312)) (Fin (- 5))
             # Ui_status Fatigue_rms_unconfirmed # rest)"
    using t g
    by (simp add: sample_outputs_def default_sliders_def status_percentage_def Let_def
          change_example_mnf change_example_rms_17)
  have b: "status_percentage
        (double_mul (double_div (double_sub 71 100) 100) 100 \<le> - 29)
        (double_mul (double_div (double_sub 71 100) 100) 100 \<le> - 29)
       = No_fatigue"
    by (simp add: change_example_71 status_percentage_def)
  show ?thesis using a b change_example_71 by simp
qed

subsection \<open>C5: the trend rule\<close>

text \<open>
  C5 as stated: when \<open>total_windows \<le> 1\<close> both trend results are absent and the trend
  classification is skipped with a diagnostic. The trend classification sits inside
  the test of line 211, which has no \<open>else\<close>. A recording at 1000 Hz with a valid header
  and 250 rows of the mid-scale count 512 has exactly one window, of zeros: the
  regression results are absent, the baseline is \<open>{0, 0}\<close>, the test of line 211 fails,
  and the script shows the success message and the baseline only. No diagnostic at
  all is emitted, neither by \<open>process_emg_file\<close> nor by the script.
\<close>

theorem trend_silent_counterexample:
  "run_summary (process_emg_file sample_libs sample_recording 5)
     = Some (1, None, None, None, None)
   \<and> script sample_libs (Some sample_recording) default_sliders
       = ([], Inr [Ui_success, Ui_baseline (Fin 0) (Fin 0)])"
  by (simp add: run_summary_def script_def process_emg_file_def sample_recording_header
        sample_recording_body fatigue_analysis_def)

text \<open>
  C5, amended. The trend results are absent (\<open>None\<close>) iff \<open>total_windows \<le> 1\<close>, and are
  the slopes and p-values of the two regressions otherwise. The trend classification
  is evaluated only inside the gate of the percentage rule (at least one window, both
  baseline components non-zero): there, when the trend results are absent it is
  skipped with a diagnostic, and when they are present fatigue-by-trend-MNF holds iff
  \<open>slope_mnf < 0\<close> and \<open>p_value_mnf < alpha\<close> (the same for RMS), with the same four-way
  verdict as the percentage rule, shown as a trend status of its own after the
  percentage status. When the gate fails nothing is shown: neither status nor
  diagnostic.
\<close>

theorem trend_rule:
  assumes "wf_outputs r"
  shows "(trend_stage L t_vals rms_vals mnf_vals = (None, None, None, None))
           = (length t_vals \<le> 1)
       \<and> (1 < length t_vals
            \<longrightarrow> trend_stage L t_vals rms_vals mnf_vals
                  = (Some (fst (linregress L t_vals rms_vals)),
                     Some (snd (linregress L t_vals rms_vals)),
                     Some (fst (linregress L t_vals mnf_vals)),
                     Some (snd (linregress L t_vals mnf_vals))))
       \<and> (out_t_vals r = [] \<or> out_rms_baseline r = Fin 0 \<or> out_mnf_baseline r = Fin 0
            \<longrightarrow> fatigue_analysis r sl = Inr [])
       \<and> (out_t_vals r \<noteq> [] \<and> out_rms_baseline r \<noteq> Fin 0 \<and> out_mnf_baseline r \<noteq> Fin 0
            \<and> out_slope_rms r = None
            \<longrightarrow> (\<exists>change status.
                    fatigue_analysis r sl
                      = Inr [change, Ui_status status, Ui_warn_trend_insufficient, Ui_note]))
       \<and> (out_t_vals r \<noteq> [] \<and> out_rms_baseline r \<noteq> Fin 0 \<and> out_mnf_baseline r \<noteq> Fin 0
            \<and> out_slope_rms r = Some slope_rms \<and> out_p_value_rms r = Some p_value_rms
            \<and> out_slope_mnf r = Some slope_mnf \<and> out_p_value_mnf r = Some p_value_mnf
            \<longrightarrow> (\<exists>change status.
                    fatigue_analysis r sl
                      = Inr [change, Ui_status status,
                             Ui_slopes slope_rms p_value_rms slope_mnf p_value_mnf,
                             Ui_status_trend
                               (status_trend
                                  (slope_mnf < 0 \<and> p_value_mnf < significance_alpha sl)
                                  (slope_rms < 0 \<and> p_value_rms < significance_alpha sl)),
                             Ui_note]))
       \<and> status_trend by_mnf by_rms = status_percentage by_mnf by_rms"
proof -
  have absent: "\<exists>change status.
                    fatigue_analysis r sl
                      = Inr [change, Ui_status status, Ui_warn_trend_insufficient, Ui_note]"
    if g: "out_t_vals r \<noteq> []" "out_rms_baseline r \<noteq> Fin 0" "out_mnf_baseline r \<noteq> Fin 0"
      and n: "out_slope_rms r = None"
  proof -
    have "trend_report (out_slope_rms r) (out_p_value_rms r) (out_slope_mnf r)
           (out_p_value_mnf r) (significance_alpha sl) = Inr [Ui_warn_trend_insufficient]"
      using n by (simp add: trend_report_def split: option.splits)
    from fatigue_analysis_gate_open [OF assms g this] show ?thesis by simp
  qed
  have present: "\<exists>change status.
                    fatigue_analysis r sl
                      = Inr [change, Ui_status status,
                             Ui_slopes slope_rms p_value_rms slope_mnf p_value_mnf,
                             Ui_status_trend
                               (status_trend
                                  (slope_mnf < 0 \<and> p_value_mnf < significance_alpha sl)
                                  (slope_rms < 0 \<and> p_value_rms < significance_alpha sl)),
                             Ui_note]"
    if g: "out_t_vals r \<noteq> []" "out_rms_baseline r \<noteq> Fin 0" "out_mnf_baseline r \<noteq> Fin 0"
      and s: "out_slope_rms r = Some slope_rms" "out_p_value_rms r = Some p_value_rms"
             "out_slope_mnf r = Some slope_mnf" "out_p_value_mnf r = Some p_value_mnf"
  proof -
    have "trend_report (out_slope_rms r) (out_p_value_rms r) (out_slope_mnf r)
           (out_p_value_mnf r) (significance_alpha sl)
          = Inr [Ui_slopes slope_rms p_value_rms slope_mnf p_value_mnf,
                 Ui_status_trend
                   (status_trend
                      (slope_mnf < 0 \<and> p_value_mnf < significance_alpha sl)
                      (slope_rms < 0 \<and> p_value_rms < significance_alpha sl))]"
      using s by (simp add: trend_report_def Let_def)
    from fatigue_analysis_gate_open [OF assms g this] show ?thesis by simp
  qed
  have defined: "trend_stage L t_vals rms_vals mnf_vals
                  = (Some (fst (linregress L t_vals rms_vals)),
                     Some (snd (linregress L t_vals rms_vals)),
                     Some (fst (linregress L t_vals mnf_vals)),
                     Some (snd (linregress L t_vals mnf_vals)))"
    if "1 < length t_vals"
    using that by (simp add: trend_stage_def split: prod.splits)
  show ?thesis
    using trend_stage_absent [of L t_vals rms_vals mnf_vals] defined
      fatigue_analysis_gate_closed [of r sl] absent present status_trend_eq [of by_mnf by_rms]
    by blast
qed

theorem trend_rule_witness:
  "trend_stage sample_libs [1 / 8] [1] [100] = (None, None, None, None)
   \<and> trend_stage sample_libs [1 / 8, 1 / 4] [1, 85 / 100] [100, 95]
       = (Some 0, Some 1, Some 0, Some 1)
   \<and> (\<exists>change status.
        fatigue_analysis (sample_outputs None None None None) default_sliders
          = Inr [change, Ui_status status, Ui_warn_trend_insufficient, Ui_note])
   \<and> (\<exists>change status.
        fatigue_analysis
            (sample_outputs (Some (- 1)) (Some (1 / 100)) (Some (- 2)) (Some (1 / 5)))
            default_sliders
          = Inr [change, Ui_status status, Ui_slopes (- 1) (1 / 100) (- 2) (1 / 5),
                 Ui_status_trend Fatigue_rms_unconfirmed, Ui_note])"
proof -
  let ?r0 = "sample_outputs None None None None"
  let ?r1 = "sample_outputs (Some (- 1)) (Some (1 / 100)) (Some (- 2)) (Some (1 / 5))"
  have wf0: "wf_outputs ?r0" and wf1: "wf_outputs ?r1"
    by (simp_all add: wf_outputs_def sample_outputs_def)
  have g0: "out_t_vals ?r0 \<noteq> [] \<and> out_rms_baseline ?r0 \<noteq> Fin 0 \<and> out_mnf_baseline ?r0 \<noteq> Fin 0
            \<and> out_slope_rms ?r0 = None"
    by (simp add: sample_outputs_def)
  have g1: "out_t_vals ?r1 \<noteq> [] \<and> out_rms_baseline ?r1 \<noteq> Fin 0 \<and> out_mnf_baseline ?r1 \<noteq> Fin 0
            \<and> out_slope_rms ?r1 = Some (- 1) \<and> out_p_value_rms ?r1 = Some (1 / 100)
            \<and> out_slope_mnf ?r1 = Some (- 2) \<and> out_p_value_mnf ?r1 = Some (1 / 5)"
    by (simp add: sample_outputs_def)
  note t0 = trend_rule [OF wf0, of sample_libs "[1 / 8]" "[1]" "[100]" default_sliders]
  note t1 = trend_rule [OF wf1, of sample_libs "[1 / 8, 1 / 4]" "[1, 85 / 100]" "[100, 95]"
                          default_sliders "- 1" "1 / 100" "- 2" "1 / 5"]
  have a: "trend_stage sample_libs [1 / 8] [1] [100] = (None, None, None, None)"
    using t0 by simp
  have b: "trend_stage sample_libs [1 / 8, 1 / 4] [1, 85 / 100] [100, 95]
       = (Some 0, Some 1, Some 0, Some 1)"
    using t1 by (simp add: sample_libs_def)
  have c: "\<exists>change status.
        fatigue_analysis ?r0 default_sliders
          = Inr [change, Ui_status status, Ui_warn_trend_insufficient, Ui_note]"
    using t0 g0 by blast
  have "\<exists>change status.
        fatigue_analysis ?r1 default_sliders
          = Inr [change, Ui_status status, Ui_slopes (- 1) (1 / 100) (- 2) (1 / 5),
                 Ui_status_trend
                   (status_trend
                      ((- 2 :: real) < 0 \<and> (1 / 5 :: real) < significance_alpha default_sliders)
                      ((- 1 :: real) < 0 \<and> (1 / 100 :: real) < significance_alpha default_sliders)),
                 Ui_note]"
    using t1 g1 by blast
  then have d: "\<exists>change status.
        fatigue_analysis ?r1 default_sliders
          = Inr [change, Ui_status status, Ui_slopes (- 1) (1 / 100) (- 2) (1 / 5),
                 Ui_status_trend Fatigue_rms_unconfirmed, Ui_note]"
    by (simp add: default_sliders_def status_trend_def)
  show ?thesis using a b c d by blast
qed

subsection \<open>C6: a header without the channel \<open>A1\<close>\<close>

text \<open>
  C6. For every input whose header line parses as JSON (an object whose first entry is
  the device's object) and whose declared column layout does not contain \<open>"A1"\<close>, the
  run is a hard failure: \<open>process_emg_file\<close> emits the error, returns without a
  computed result (the values of line 61), and the script stops at line 139. This is
  distinct from the path taken when there is no header line at all, which keeps the
  defaults (1000 Hz, column 5, 10 bits), emits a warning and goes on to the processing
  of lines 70-127.
\<close>

theorem missing_channel_hard_failure:
  assumes "splitlines string_data = first_line # second_line # more_lines"
    and "startswith second_line ''#''"
    and "json_loads L (strip (drop 1 second_line))
           = Some (JObj ((device_id, JObj info) # other_devices))"
    and "dict_get info ''column'' (JList []) = JList columns"
    and "JStr ''A1'' \<notin> set columns"
  shows "process_emg_file L string_data baseline_duration_sec
           = ([Err_A1_not_found], Inr Nine_None)
       \<and> script L (Some string_data) sl
           = ([Err_A1_not_found], Inl (ValueError (UnpackArity 10 9)))
       \<and> (\<forall>plain_text.
            length (splitlines plain_text) \<le> 1 \<or> \<not> startswith (splitlines plain_text ! 1) ''#''
            \<longrightarrow> extract_header L plain_text
                  = ([Warn_header_not_found],
                     Some \<lparr>h_fs = JInt 1000, h_resolution_bits = JInt 10,
                           h_emg_column_index = 5\<rparr>)
                \<and> process_emg_file L plain_text baseline_duration_sec
                  = (case process_body L plain_text default_header baseline_duration_sec of
                       Inl e \<Rightarrow> ([Warn_header_not_found], Inl e)
                     | Inr (out, ds) \<Rightarrow> (Warn_header_not_found # ds, Inr (Ten out)))
                \<and> snd (process_emg_file L plain_text baseline_duration_sec) \<noteq> Inr Nine_None)"
proof -
  have h: "extract_header L string_data = ([Err_A1_not_found], None)"
    using assms by (rule extract_header_no_A1)
  have p: "process_emg_file L string_data d = ([Err_A1_not_found], Inr Nine_None)" for d
    using h by (simp add: process_emg_file_def)
  have s: "script L (Some string_data) sl
           = ([Err_A1_not_found], Inl (ValueError (UnpackArity 10 9)))"
    using p [of 5] by (simp add: script_def)
  have soft: "extract_header L plain_text
                  = ([Warn_header_not_found],
                     Some \<lparr>h_fs = JInt 1000, h_resolution_bits = JInt 10,
                           h_emg_column_index = 5\<rparr>)
                \<and> process_emg_file L plain_text baseline_duration_sec
                  = (case process_body L plain_text default_header baseline_duration_sec of
                       Inl e \<Rightarrow> ([Warn_header_not_found], Inl e)
                     | Inr (out, ds) \<Rightarrow> (Warn_header_not_found # ds, Inr (Ten out)))
                \<and> snd (process_emg_file L plain_text baseline_duration_sec) \<noteq> Inr Nine_None"
    if "length (splitlines plain_text) \<le> 1 \<or> \<not> startswith (splitlines plain_text ! 1) ''#''" for plain_text
  proof -
    have e: "extract_header L plain_text = ([Warn_header_not_found], Some default_header)"
      using that by (rule extract_header_no_header)
    then show ?thesis
      by (auto simp: process_emg_file_def default_header_def split: sum.splits prod.splits)
  qed
  show ?thesis using p s soft by blast
qed

theorem missing_channel_hard_failure_witness:
  "process_emg_file sample_libs sample_file 5 = ([Err_A1_not_found], Inr Nine_None)
   \<and> script sample_libs (Some sample_file) default_sliders
       = ([Err_A1_not_found], Inl (ValueError (UnpackArity 10 9)))
   \<and> extract_header sample_libs ''0 512''
       = ([Warn_header_not_found],
          Some \<lparr>h_fs = JInt 1000, h_resolution_bits = JInt 10, h_emg_column_index = 5\<rparr>)
   \<and> snd (process_emg_file sample_libs ''0 512'' 5) \<noteq> Inr Nine_None"
proof -
  have l: "splitlines sample_file
     = ''# OpenSignals Text File Format'' # (''# '' @ sample_header_text) # [''# EndOfHeader'', ''0 512'']"
    by (simp add: sample_file_lines)
  have st: "startswith (''# '' @ sample_header_text) ''#''"
    by (simp add: startswith_def)
  have c: "dict_get [(''sampling rate'', JInt 1000),
                           (''column'', JList [JStr ''nSeq'', JStr ''A2'']),
                           (''resolution'', JList [JInt 4, JInt 10])] ''column'' (JList [])
         = JList [JStr ''nSeq'', JStr ''A2'']"
    by (simp add: dict_get_def)
  have n: "JStr ''A1'' \<notin> set [JStr ''nSeq'', JStr ''A2'']" by simp
  have plain: "length (splitlines ''0 512'') \<le> 1 \<or> \<not> startswith (splitlines ''0 512'' ! 1) ''#''"
    by (simp add: splitlines_def is_linebreak_def)
  note t = missing_channel_hard_failure [OF l st sample_file_json c n, of 5 default_sliders]
  from t plain show ?thesis by blast
qed

subsection \<open>C7: the mean frequency of a window\<close>

text \<open>
  C7. For every window segment (a full window inside the recording), the mean
  frequency is \<open>sum(f * Pxx) / sum(Pxx)\<close> over the power spectral density that \<open>welch\<close>
  returns for the segment with segment length \<open>min(128, win_size)\<close>, and it is 0
  whenever \<open>sum(Pxx) = 0\<close>: the quotient, which numpy evaluates to \<open>nan\<close> for a zero
  divisor, is taken only for a divisor that is not zero, so that the mean frequency is
  always a number. An all-zero segment gives \<open>rms_mv = 0\<close> and \<open>mnf_hz = 0\<close>, and the
  window is computed without an error. The spectral density is that of scipy:
  non-negative, and zero for the zero signal.
\<close>

theorem mean_frequency_guarded:
  assumes "welch_psd L" and "wf_df df"
    and "0 \<le> i" and "0 < win_size" and "i + win_size \<le> int (len_df df)"
    and "segment = py_slice (emg_rectified df) i (i + win_size)"
    and "welch L segment fs (min 128 win_size) = (f, Pxx)"
  shows "\<exists>t rms mnf.
           window_features L df fs win_size i = Inr (t, rms, mnf)
         \<and> length segment = nat win_size
         \<and> rms = sqrt (sum_list (map (\<lambda>x. x\<^sup>2) segment) / real (length segment))
         \<and> mean_frequency (f, Pxx) = Fin mnf
         \<and> (sum_list Pxx = 0 \<longrightarrow> mnf = 0)
         \<and> (sum_list Pxx \<noteq> 0
              \<longrightarrow> np_divide (sum_list (map2 (*) f Pxx)) (sum_list Pxx) = Fin mnf
                  \<and> mnf = sum_list (map2 (*) f Pxx) / sum_list Pxx)
         \<and> ((\<forall>x \<in> set segment. x = 0) \<longrightarrow> rms = 0 \<and> mnf = 0)"
proof -
  have len: "length (time df) = len_df df" "length (emg_rectified df) = len_df df"
    using assms(2) by (simp_all add: wf_df_def)
  have wf: "window_features L df fs win_size i
           = Inr (time df ! nat (i + win_size div 2),
                  sqrt (mean (map (\<lambda>x. x\<^sup>2) segment)),
                  fin_value (mean_frequency (f, Pxx)))"
    using window_features_ok [OF assms(3,4,5) len(1), of L fs] assms(6,7) by simp
  have seg: "length segment = nat win_size"
    using segment_full(2) [of i win_size "emg_rectified df"] assms(3,4,5,6) len(2) by simp
  have nn: "\<forall>p \<in> set Pxx. 0 \<le> p"
    using assms(1,7) unfolding welch_psd_def by (metis snd_conv)
  let ?m = "if sum_list Pxx = 0 then 0 else sum_list (map2 (*) f Pxx) / sum_list Pxx"
  have mnf: "mean_frequency (f, Pxx) = Fin ?m"
    using nn by (rule mean_frequency_guard)
  have quot: "np_divide (sum_list (map2 (*) f Pxx)) (sum_list Pxx) = Fin ?m
              \<and> ?m = sum_list (map2 (*) f Pxx) / sum_list Pxx"
    if "sum_list Pxx \<noteq> 0"
    using that by (simp add: np_divide_def)
  have zero: "sqrt (mean (map (\<lambda>x. x\<^sup>2) segment)) = 0 \<and> ?m = 0"
    if z: "\<forall>x \<in> set segment. x = 0"
  proof -
    have "\<forall>p \<in> set Pxx. p = 0"
      using assms(1,7) z unfolding welch_psd_def by (metis snd_conv)
    then have "sum_list Pxx = 0" by (rule sum_list_all_zero)
    then show ?thesis using rms_zero [OF z] by simp
  qed
  have "window_features L df fs win_size i
           = Inr (time df ! nat (i + win_size div 2),
                  sqrt (mean (map (\<lambda>x. x\<^sup>2) segment)), ?m)"
    using wf mnf by simp
  moreover have "sqrt (mean (map (\<lambda>x. x\<^sup>2) segment))
                   = sqrt (sum_list (map (\<lambda>x. x\<^sup>2) segment) / real (length segment))"
    by (simp add: mean_def)
  moreover have "sum_list Pxx = 0 \<longrightarrow> ?m = 0" by simp
  ultimately show ?thesis using seg mnf quot zero by blast
qed

theorem mean_frequency_guarded_witness:
  "window_features sample_libs (sample_df 375 1000 0) 1000 250 125 = Inr (1 / 4, 0, 0)
   \<and> mean_frequency ([0, 500], [0, 0]) = Fin 0"
proof -
  let ?df = "sample_df 375 1000 0"
  have wf: "wf_df ?df" by (simp add: wf_df_def len_df_def sample_df_def)
  have b: "(0 :: int) \<le> 125" "(0 :: int) < 250" "125 + 250 \<le> int (len_df ?df)"
    by (simp_all add: len_df_def sample_df_def)
  have seg: "replicate 250 (0 :: real) = py_slice (emg_rectified ?df) 125 (125 + 250)"
    by (simp add: py_slice_def slice_bound_def sample_df_def)
  have w: "welch sample_libs (replicate 250 0) 1000 (min 128 250) = ([0, 500], [0, 0])"
    by (simp add: sample_libs_def sum_list_replicate)
  from mean_frequency_guarded [OF sample_welch_psd wf b seg w]
  obtain t rms mnf where r: "window_features sample_libs ?df 1000 250 125 = Inr (t, rms, mnf)"
    and mf: "mean_frequency ([0, 500], [0, 0]) = Fin mnf"
    and z: "(\<forall>x \<in> set (replicate 250 (0 :: real)). x = 0) \<longrightarrow> rms = 0 \<and> mnf = 0"
    by blast
  have "t = 1 / 4"
    using r by (simp add: window_features_def py_index_def sample_df_def Let_def)
  moreover have "rms = 0 \<and> mnf = 0" using z by simp
  ultimately show ?thesis using r mf by simp
qed

subsection \<open>C9: the features are non-negative\<close>

text \<open>
  C9. Every feature window produced by the extraction has \<open>rms_mv \<ge> 0\<close> and
  \<open>mnf_hz \<ge> 0\<close>: the RMS is the square root of a mean of squares, and the MNF is 0 or a
  ratio of a sum of products of non-negative frequencies and densities by a positive
  sum of densities.
\<close>

theorem features_nonneg:
  assumes "welch_psd L" and "0 < fs"
    and "extract_features L df fs win_size step = Inr (t_vals, rms_vals, mnf_vals)"
  shows "(\<forall>rms \<in> set rms_vals. 0 \<le> rms) \<and> (\<forall>mnf \<in> set mnf_vals. 0 \<le> mnf)"
proof -
  obtain starts where "feature_loop L df fs win_size starts = Inr (t_vals, rms_vals, mnf_vals)"
    using assms(3) by (auto simp: extract_features_def split: sum.splits)
  from feature_loop_all [of L df fs win_size "\<lambda>rms mnf. 0 \<le> rms \<and> 0 \<le> mnf", OF _ this]
    window_features_nonneg [OF assms(1,2)]
  show ?thesis by blast
qed

theorem features_nonneg_witness:
  "extract_features sample_libs (sample_df 375 1000 1) 1000 250 125
     = Inr ([1 / 8, 1 / 4], [1, 1], [500, 500])
   \<and> (0 :: real) \<le> 1 \<and> (0 :: real) \<le> 500"
proof -
  have pos: "(0 :: int) < 1000" by simp
  from features_nonneg [OF sample_welch_psd pos sample_features]
  show ?thesis using sample_features by simp
qed

subsection \<open>C8: a signal too short for the zero-phase filters\<close>

text \<open>
  C8 as stated: for every calibrated signal with fewer samples than the zero-phase
  filters need for their padding, the conditioning stage fails with a size-related
  error. The filter is designed before it is applied: at 500 Hz a signal of 20 samples
  passes the notch (more than 15 samples) and the design of the band-pass fails, its
  high cut-off being 450/250 of the Nyquist frequency; the error is the one of the
  critical frequencies, not a size-related one.
\<close>

theorem short_signal_counterexample:
  "len_df (sample_df 20 500 0) = 20
   \<and> notch_filter sample_libs (replicate 20 0) 50 500 2 = Inr (replicate 20 0)
   \<and> preprocess sample_libs (sample_df 20 500 0) 500 (JInt 10)
       = Inl (ValueError CriticalFrequencies)"
  by (simp add: preprocess_def sample_libs_def convert_to_mv_default_def convert_to_mv_def
        notch_filter_def bandpass_filter_def column_of_def len_df_def mean_def
        sample_df_def Let_def sum_list_replicate)

text \<open>
  C8, amended. For every calibrated signal with fewer samples than the zero-phase
  filters need for their padding (at most 33 for the cascade of lines 89-90), the
  conditioning stage fails with an exception and never returns a truncated or
  shortened signal: whatever it returns has \<open>len(df)\<close> samples, and it returns only
  above 900 Hz and for more than 33 samples. The error is the size-related one of
  \<open>filtfilt\<close> where the filter design is valid: in the notch for at most 15 samples
  above 102 Hz, in the band-pass for at most 33 samples above 900 Hz. At a lower
  positive rate the error of the critical frequencies comes first: in the notch up to
  102 Hz, in the band-pass up to 900 Hz for more than 15 samples. The code has no
  check of its own and catches nothing: the errors are those that \<open>butter\<close> and
  \<open>filtfilt\<close> raise.
\<close>

theorem short_signal_raises:
  assumes "butter_rejects L" and "butter_designs L" and "filtfilt_pads L"
  shows "(102 < fs \<and> length signal \<le> 15
            \<longrightarrow> notch_filter L signal 50 fs 2 = Inl (ValueError (InputShorterThanPadlen 15)))
       \<and> (900 < fs \<and> length signal \<le> 33
            \<longrightarrow> bandpass_filter L signal 20 450 fs 5
                  = Inl (ValueError (InputShorterThanPadlen 33)))
       \<and> (len_df df \<le> 33 \<longrightarrow> (\<exists>e. preprocess L df fs resolution_bits = Inl e))
       \<and> (102 < fs \<and> len_df df \<le> 15 \<and> as_int resolution_bits \<noteq> None
            \<longrightarrow> preprocess L df fs resolution_bits
                  = Inl (ValueError (InputShorterThanPadlen 15)))
       \<and> (900 < fs \<and> 15 < len_df df \<and> len_df df \<le> 33 \<and> as_int resolution_bits \<noteq> None
            \<longrightarrow> preprocess L df fs resolution_bits
                  = Inl (ValueError (InputShorterThanPadlen 33)))
       \<and> (0 < fs \<and> fs \<le> 900 \<and> (fs \<le> 102 \<or> 15 < len_df df)
            \<and> as_int resolution_bits \<noteq> None
            \<longrightarrow> preprocess L df fs resolution_bits = Inl (ValueError CriticalFrequencies))
       \<and> (\<forall>df'. preprocess L df fs resolution_bits = Inr df'
            \<longrightarrow> 900 < fs \<and> 33 < len_df df
                \<and> length (emg_processed df') = len_df df
                \<and> length (emg_rectified df') = len_df df)"
proof -
  have a: "102 < fs \<and> length signal \<le> 15
            \<longrightarrow> notch_filter L signal 50 fs 2 = Inl (ValueError (InputShorterThanPadlen 15))"
    using notch_short [OF assms(2,3)] by blast
  have b: "900 < fs \<and> length signal \<le> 33
            \<longrightarrow> bandpass_filter L signal 20 450 fs 5
                  = Inl (ValueError (InputShorterThanPadlen 33))"
    using bandpass_short [OF assms(2,3)] by blast
  have c: "len_df df \<le> 33 \<longrightarrow> (\<exists>e. preprocess L df fs resolution_bits = Inl e)"
    using preprocess_short_fails [OF assms] by blast
  have d: "102 < fs \<and> len_df df \<le> 15 \<and> as_int resolution_bits \<noteq> None
            \<longrightarrow> preprocess L df fs resolution_bits
                  = Inl (ValueError (InputShorterThanPadlen 15))"
    using preprocess_short_notch [OF assms(2,3)] by blast
  have e: "900 < fs \<and> 15 < len_df df \<and> len_df df \<le> 33 \<and> as_int resolution_bits \<noteq> None
            \<longrightarrow> preprocess L df fs resolution_bits
                  = Inl (ValueError (InputShorterThanPadlen 33))"
    using preprocess_short [OF assms(2,3), of fs resolution_bits df] by auto
  have f: "0 < fs \<and> fs \<le> 900 \<and> (fs \<le> 102 \<or> 15 < len_df df)
            \<and> as_int resolution_bits \<noteq> None
            \<longrightarrow> preprocess L df fs resolution_bits = Inl (ValueError CriticalFrequencies)"
    using preprocess_critical [OF assms] by blast
  have g: "900 < fs \<and> 33 < len_df df
                \<and> length (emg_processed df') = len_df df
                \<and> length (emg_rectified df') = len_df df"
    if r: "preprocess L df fs resolution_bits = Inr df'" for df'
    using preprocess_returns [OF assms r] preprocess_lengths [OF r] by simp
  show ?thesis using a b c d e f g by blast
qed

theorem short_signal_raises_witness:
  "notch_filter sample_libs (replicate 15 0) 50 500 2
     = Inl (ValueError (InputShorterThanPadlen 15))
   \<and> bandpass_filter sample_libs (replicate 33 0) 20 450 1000 5
     = Inl (ValueError (InputShorterThanPadlen 33))
   \<and> preprocess sample_libs (sample_df 10 500 0) 500 (JInt 10)
     = Inl (ValueError (InputShorterThanPadlen 15))
   \<and> preprocess sample_libs (sample_df 20 1000 0) 1000 (JInt 10)
     = Inl (ValueError (InputShorterThanPadlen 33))
   \<and> preprocess sample_libs (sample_df 20 100 0) 100 (JInt 10)
     = Inl (ValueError CriticalFrequencies)"
proof -
  note c = sample_butter_rejects sample_butter_designs sample_filtfilt_pads
  have l10: "len_df (sample_df 10 500 0) = 10" and l20: "len_df (sample_df 20 1000 0) = 20"
    and l20': "len_df (sample_df 20 100 0) = 20"
    by (simp_all add: len_df_def sample_df_def)
  have a: "notch_filter sample_libs (replicate 15 0) 50 500 2
     = Inl (ValueError (InputShorterThanPadlen 15))"
    using short_signal_raises [OF c, of 500 "replicate 15 0"] by simp
  have b: "bandpass_filter sample_libs (replicate 33 0) 20 450 1000 5
     = Inl (ValueError (InputShorterThanPadlen 33))"
    using short_signal_raises [OF c, of 1000 "replicate 33 0"] by simp
  have d: "preprocess sample_libs (sample_df 10 500 0) 500 (JInt 10)
     = Inl (ValueError (InputShorterThanPadlen 15))"
    using short_signal_raises [OF c, of 500 "[]" "sample_df 10 500 0" "JInt 10"] l10 by simp
  have e: "preprocess sample_libs (sample_df 20 1000 0) 1000 (JInt 10)
     = Inl (ValueError (InputShorterThanPadlen 33))"
    using short_signal_raises [OF c, of 1000 "[]" "sample_df 20 1000 0" "JInt 10"] l20 by simp
  have f: "preprocess sample_libs (sample_df 20 100 0) 100 (JInt 10)
     = Inl (ValueError CriticalFrequencies)"
    using short_signal_raises [OF c, of 100 "[]" "sample_df 20 100 0" "JInt 10"] l20' by simp
  show ?thesis using a b d e f by simp
qed

subsection \<open>C10: a sampling rate of at most 900 Hz\<close>

text \<open>
  C10. The sampling rate taken from the header is not validated against the filter
  cut-offs: for every header-declared sampling rate \<open>fs\<close> with \<open>0 < fs \<le> 900\<close> the
  band-pass of 20-450 Hz normalises its high cut-off to \<open>450/(fs/2) \<ge> 1\<close>, the filter
  design fails, and \<open>process_emg_file\<close>, once the header is accepted, raises an
  exception: it returns no result. The failure of the design is scipy's check of the
  critical frequencies.
\<close>

theorem low_sampling_rate_raises:
  assumes "butter_rejects L" and "0 < fs" and "fs \<le> 900"
  shows "1 \<le> 450 / (real_of_int fs / 2)
       \<and> bandpass_filter L signal 20 450 fs 5 = Inl (ValueError CriticalFrequencies)
       \<and> (\<exists>e. preprocess L df fs resolution_bits = Inl e)
       \<and> (h_fs h = JInt fs
            \<longrightarrow> (\<exists>e. process_body L string_data h baseline_duration_sec = Inl e))
       \<and> (h_fs h = JInt fs \<and> extract_header L string_data = (ds, Some h)
            \<longrightarrow> (\<exists>e. process_emg_file L string_data baseline_duration_sec = (ds, Inl e)))"
proof -
  have body: "\<exists>e. process_body L string_data h baseline_duration_sec = Inl e"
    if "h_fs h = JInt fs"
    using process_body_low_rate [OF assms that] .
  have whole: "\<exists>e. process_emg_file L string_data baseline_duration_sec = (ds, Inl e)"
    if hf: "h_fs h = JInt fs" and eh: "extract_header L string_data = (ds, Some h)"
  proof -
    obtain e where "process_body L string_data h baseline_duration_sec = Inl e"
      using body hf by blast
    then show ?thesis using eh by (simp add: process_emg_file_def)
  qed
  show ?thesis
    using bandpass_low_rate [OF assms] preprocess_low_rate [OF assms] body whole by blast
qed

theorem low_sampling_rate_raises_witness:
  "bandpass_filter sample_libs (replicate 40 0) 20 450 500 5
     = Inl (ValueError CriticalFrequencies)
   \<and> (\<exists>e. process_emg_file sample_libs sample_file_500 5 = ([], Inl e))"
proof -
  have r: "(0 :: int) < 500" "(500 :: int) \<le> 900" by simp_all
  note t = low_sampling_rate_raises [OF sample_butter_rejects r,
             of "replicate 40 0" "sample_df 40 500 0" "JInt 10"
                "\<lparr>h_fs = JInt 500, h_resolution_bits = JInt 10, h_emg_column_index = 1\<rparr>"
                sample_file_500 5 "[]"]
  show ?thesis using t sample_file_500_header by simp
qed

end
